theory Spec2Isabelle
  imports Main "HOL-Library.Word"
begin

section \<open>The match viewer of pwa/app.js\<close>

text \<open>
  A shallow embedding of \<^verbatim>\<open>src/pwa/app.js\<close>: the API base resolver, the fetch wrapper,
  the render function and the two actions, over JavaScript values as \<^verbatim>\<open>JSON.parse\<close>
  produces them. What the browser provides (the clock, the locale formatting of dates, the
  URL parser, the network) is a parameter of the model; what the file itself computes is
  defined here.
\<close>

subsection \<open>Strings\<close>

text \<open>
  A JavaScript string is a sequence of UTF-16 code units: \<^verbatim>\<open>.length\<close> counts code units,
  \<^verbatim>\<open>for ... of\<close> walks code points. \<open>str\<close> embeds an ASCII literal.
\<close>

type_synonym jsstring = "16 word list"

definition str :: "string \<Rightarrow> jsstring" where
  "str s = map of_char s"

definition bullet :: "16 word" where
  "bullet = 0x2022"

definition en_dash :: "16 word" where
  "en_dash = 0x2013"

definition em_dash :: "16 word" where
  "em_dash = 0x2014"

definition ellipsis :: "16 word" where
  "ellipsis = 0x2026"

text \<open>The decimal digits of a natural number, and its last \<open>k\<close> digits (zeros in front if short).\<close>

fun digits :: "nat \<Rightarrow> jsstring" where
  "digits n = (if n < 10 then [of_nat (48 + n)] else digits (n div 10) @ [of_nat (48 + n mod 10)])"

fun pad :: "nat \<Rightarrow> nat \<Rightarrow> jsstring" where
  "pad 0 n = []"
| "pad (Suc k) n = pad k (n div 10) @ [of_nat (48 + n mod 10)]"

subsection \<open>Numbers\<close>

text \<open>
  A number is a double. \<open>nearestDouble n\<close> is the double \<^verbatim>\<open>JSON.parse\<close> gives the integer
  literal \<open>n\<close>: \<open>n\<close> itself up to 53 bits, beyond that \<open>n\<close> rounded to 53 significant bits,
  a tie going to the even one.
\<close>

fun bitLength :: "nat \<Rightarrow> nat" where
  "bitLength n = (if n = 0 then 0 else 1 + bitLength (n div 2))"

definition nearestDouble :: "nat \<Rightarrow> nat" where
  "nearestDouble n =
     (if bitLength n \<le> 53 then n
      else (let u = 2 ^ (bitLength n - 53); q = n div u; r = n mod u
            in (if u < 2 * r \<or> (2 * r = u \<and> odd q) then q + 1 else q) * u))"

text \<open>
  \<^verbatim>\<open>Number.prototype.toString\<close> writes the decimal with the fewest significant digits that
  still reads back as the same double, the closest one where several do: \<open>shortest x j\<close>
  looks for it among the multiples of \<open>10 ^ j\<close> next to \<open>x\<close>, from the coarsest down. Up
  to 21 digits are written in full; more are written with an exponent.
\<close>

fun shortest :: "nat \<Rightarrow> nat \<Rightarrow> nat" where
  "shortest x j =
     (if j = 0 then x
      else (let p = 10 ^ j; lo = (x div p) * p; hi = lo + p;
                okLo = (0 < lo \<and> nearestDouble lo = x); okHi = (nearestDouble hi = x)
            in if okLo \<and> okHi
               then (if x - lo < hi - x then lo
                     else if hi - x < x - lo then hi
                     else if even (x div p) then lo else hi)
               else if okLo then lo
               else if okHi then hi
               else shortest x (j - 1)))"

definition stripZeros :: "jsstring \<Rightarrow> jsstring" where
  "stripZeros ds = rev (dropWhile (\<lambda>c. c = 0x30) (rev ds))"

definition exponential :: "nat \<Rightarrow> jsstring" where
  "exponential c =
     (let ds = digits c; sig = stripZeros ds
      in (if length sig = 1 then sig else take 1 sig @ str ''.'' @ drop 1 sig)
         @ str ''e+'' @ digits (length ds - 1))"

definition doubleToString :: "nat \<Rightarrow> jsstring" where
  "doubleToString x =
     (let c = shortest x (length (digits x) - 1)
      in if length (digits c) \<le> 21 then digits c else exponential c)"

text \<open>
  The text of the number that the integer literal \<open>i\<close> denotes. Up to \<open>2 ^ 53\<close> every
  integer is a double and is written with all its digits.
\<close>

definition numToString :: "int \<Rightarrow> jsstring" where
  "numToString i =
     (let a = nat \<bar>i\<bar>; sign = (if i < 0 then str ''-'' else [])
      in if a \<le> 2 ^ 53 then sign @ digits a
         else (let x = nearestDouble a
               in sign @ (if 2 ^ 1024 \<le> x then str ''Infinity'' else doubleToString x)))"

subsection \<open>Values\<close>

text \<open>
  The values \<^verbatim>\<open>res.json()\<close> can deliver, and \<^verbatim>\<open>undefined\<close>. A number is held as the
  text \<^verbatim>\<open>Number.prototype.toString\<close> writes for it, which tells any two numbers apart
  but \<^verbatim>\<open>0\<close> and \<^verbatim>\<open>-0\<close>, and these two the file cannot tell apart either: so
  \<^verbatim>\<open>1.5\<close> is \<open>JNumber (str ''1.5'')\<close>, and \<open>JNum i\<close> below is the number of the
  integer literal \<open>i\<close>. An object is the list of its own properties in the order of the
  text; where a key occurs twice the later one counts, as in \<^verbatim>\<open>JSON.parse\<close>.
\<close>

datatype jsval =
    JUndefined
  | JNull
  | JBool bool
  | JNumber jsstring
  | JStr jsstring
  | JArr "jsval list"
  | JObj "(jsstring \<times> jsval) list"

definition JNum :: "int \<Rightarrow> jsval" where
  "JNum i = JNumber (numToString i)"

text \<open>
  The runtime's own exceptions, by what raised them; \<open>Error\<close> is the one the file itself
  constructs with \<^verbatim>\<open>new Error(msg)\<close>, \<open>Rejected\<close> a failure of the network or of the JSON
  parser, with the message the browser gave it.
\<close>

datatype type_error = NullishAccess | NotPrimitive | NotIterable

datatype js_error =
    Error jsstring
  | TypeError type_error
  | URIError
  | Rejected jsstring

definition andThen :: "'e + 'a \<Rightarrow> ('a \<Rightarrow> 'e + 'b) \<Rightarrow> 'e + 'b" where
  "andThen r f = (case r of Inl e \<Rightarrow> Inl e | Inr x \<Rightarrow> f x)"

text \<open>The property names the file reads.\<close>

datatype pname =
    P_date | P_matches | P_length
  | P_date_utc | P_kickoff
  | P_league_name | P_league | P_name | P_competition
  | P_home_team | P_home | P_teams
  | P_away_team | P_away
  | P_home_goals | P_away_goals

fun key :: "pname \<Rightarrow> jsstring" where
  "key P_date = str ''date''"
| "key P_matches = str ''matches''"
| "key P_length = str ''length''"
| "key P_date_utc = str ''date_utc''"
| "key P_kickoff = str ''kickoff''"
| "key P_league_name = str ''league_name''"
| "key P_league = str ''league''"
| "key P_name = str ''name''"
| "key P_competition = str ''competition''"
| "key P_home_team = str ''home_team''"
| "key P_home = str ''home''"
| "key P_teams = str ''teams''"
| "key P_away_team = str ''away_team''"
| "key P_away = str ''away''"
| "key P_home_goals = str ''home_goals''"
| "key P_away_goals = str ''away_goals''"

definition nullish :: "jsval \<Rightarrow> bool" where
  "nullish v = (v = JUndefined \<or> v = JNull)"

text \<open>
  \<^verbatim>\<open>v?.p\<close> for one of the names above: an own property of an object, the length of an
  array or a string (a number below \<open>2 ^ 32\<close>, so written with all its digits),
  \<^verbatim>\<open>undefined\<close> otherwise (none of the names is inherited from a prototype), also on
  \<^verbatim>\<open>null\<close> and \<^verbatim>\<open>undefined\<close>.
\<close>

fun optProp :: "jsval \<Rightarrow> pname \<Rightarrow> jsval" where
  "optProp (JObj kvs) p = (case map_of (rev kvs) (key p) of None \<Rightarrow> JUndefined | Some v \<Rightarrow> v)"
| "optProp (JArr xs) p = (if p = P_length then JNumber (digits (length xs)) else JUndefined)"
| "optProp (JStr s) p = (if p = P_length then JNumber (digits (length s)) else JUndefined)"
| "optProp v p = JUndefined"

text \<open>\<^verbatim>\<open>v.p\<close>: as above, but a TypeError on \<^verbatim>\<open>null\<close> and \<^verbatim>\<open>undefined\<close>.\<close>

definition getProp :: "jsval \<Rightarrow> pname \<Rightarrow> js_error + jsval" where
  "getProp v p = (if nullish v then Inl (TypeError NullishAccess) else Inr (optProp v p))"

text \<open>
  \<^verbatim>\<open>ToBoolean\<close>, which \<^verbatim>\<open>||\<close> and \<^verbatim>\<open>!\<close> apply: of the numbers, zero and \<^verbatim>\<open>NaN\<close>
  are false.
\<close>

fun truthy :: "jsval \<Rightarrow> bool" where
  "truthy JUndefined = False"
| "truthy JNull = False"
| "truthy (JBool b) = b"
| "truthy (JNumber t) = (t \<noteq> str ''0'' \<and> t \<noteq> str ''NaN'')"
| "truthy (JStr s) = (s \<noteq> [])"
| "truthy (JArr xs) = True"
| "truthy (JObj kvs) = True"

text \<open>
  \<^verbatim>\<open>ToString\<close>, which a template literal applies to each substitution. An array is joined
  with commas, \<^verbatim>\<open>null\<close> and \<^verbatim>\<open>undefined\<close> elements as the empty string. An object is
  \<^verbatim>\<open>[object Object]\<close>, unless it has an own property \<^verbatim>\<open>toString\<close>: that shadows the
  inherited method with a value that cannot be called, and the conversion is a TypeError.
\<close>

fun toString :: "jsval \<Rightarrow> js_error + jsstring"
  and joinElems :: "jsval list \<Rightarrow> js_error + jsstring" where
  "toString JUndefined = Inr (str ''undefined'')"
| "toString JNull = Inr (str ''null'')"
| "toString (JBool b) = Inr (if b then str ''true'' else str ''false'')"
| "toString (JNumber t) = Inr t"
| "toString (JStr s) = Inr s"
| "toString (JArr xs) = joinElems xs"
| "toString (JObj kvs) =
     (if str ''toString'' \<in> fst ` set kvs then Inl (TypeError NotPrimitive)
      else Inr (str ''[object Object]''))"
| "joinElems [] = Inr []"
| "joinElems [x] = (if nullish x then Inr [] else toString x)"
| "joinElems (x # y # ys) =
     andThen (if nullish x then Inr [] else toString x) (\<lambda>s.
     andThen (joinElems (y # ys)) (\<lambda>t. Inr (s @ str '','' @ t)))"

text \<open>\<^verbatim>\<open>ToPrimitive\<close>, which \<^verbatim>\<open>new Date(v)\<close> applies to its argument.\<close>

definition toPrimitive :: "jsval \<Rightarrow> js_error + jsval" where
  "toPrimitive v =
     (case v of
        JArr xs \<Rightarrow> andThen (toString v) (\<lambda>s. Inr (JStr s))
      | JObj kvs \<Rightarrow> andThen (toString v) (\<lambda>s. Inr (JStr s))
      | _ \<Rightarrow> Inr v)"

subsection \<open>The browser\<close>

text \<open>
  What the file asks of the browser: the clock (\<^verbatim>\<open>Date.now()\<close>, \<^verbatim>\<open>new Date()\<close>, read as one
  instant per run, in milliseconds), the time zone offset in minutes, \<^verbatim>\<open>toISOString\<close> of an
  instant, \<^verbatim>\<open>new Date(p).toLocaleString()\<close> of a primitive \<open>p\<close>, and the message of each
  TypeError.
\<close>

record env =
  now :: int
  timezoneOffset :: int
  toISOString :: "int \<Rightarrow> jsstring"
  toLocaleString :: "jsval \<Rightarrow> jsstring"
  typeErrorMessage :: "type_error \<Rightarrow> jsstring"
  uriErrorMessage :: jsstring

definition toLocalISODate :: "env \<Rightarrow> jsstring" where
  "toLocalISODate e =
     (let tz = timezoneOffset e * 60000
      in take 10 (toISOString e (now e - tz)))"

text \<open>
  What the standard prescribes for \<^verbatim>\<open>toISOString\<close>, for an instant \<open>t\<close> in milliseconds
  since the epoch: the calendar date of day \<open>t div msPerDay\<close> and the time within that day,
  as \<^verbatim>\<open>YYYY-MM-DDTHH:mm:ss.sssZ\<close>; a year outside 0 to 9999 is written with a sign and six
  digits. \<open>civil\<close> gives year, month and day of a day number in the Gregorian calendar.
\<close>

definition msPerDay :: int where
  "msPerDay = 86400000"

definition civil :: "int \<Rightarrow> int \<times> int \<times> int" where
  "civil z =
     (let z2 = z + 719468;
          era = z2 div 146097;
          doe = z2 mod 146097;
          yoe = (doe - doe div 1460 + doe div 36524 - doe div 146096) div 365;
          doy = doe - (365 * yoe + yoe div 4 - yoe div 100);
          mp = (5 * doy + 2) div 153;
          d = doy - (153 * mp + 2) div 5 + 1;
          m = (if mp < 10 then mp + 3 else mp - 9);
          y = yoe + era * 400 + (if m \<le> 2 then 1 else 0)
      in (y, m, d))"

definition isoYear :: "int \<Rightarrow> jsstring" where
  "isoYear y =
     (if 0 \<le> y \<and> y \<le> 9999 then pad 4 (nat y)
      else (if y < 0 then str ''-'' else str ''+'') @ pad 6 (nat \<bar>y\<bar>))"

definition isoString :: "int \<Rightarrow> jsstring" where
  "isoString t =
     (case civil (t div msPerDay) of
        (y, m, d) \<Rightarrow>
          (let r = t mod msPerDay
           in isoYear y @ str ''-'' @ pad 2 (nat m) @ str ''-'' @ pad 2 (nat d) @ str ''T''
              @ pad 2 (nat (r div 3600000)) @ str '':'' @ pad 2 (nat (r div 60000 mod 60))
              @ str '':'' @ pad 2 (nat (r div 1000 mod 60)) @ str ''.'' @ pad 3 (nat (r mod 1000))
              @ str ''Z''))"

text \<open>
  Today's local date in the words of the specification, to be compared with what
  \<open>toLocalISODate\<close> computes: the local instant is the clock less the offset, and the local
  date is the calendar date of its day, written \<^verbatim>\<open>YYYY-MM-DD\<close>.
\<close>

definition localTime :: "env \<Rightarrow> int" where
  "localTime e = now e - timezoneOffset e * 60000"

definition localYear :: "env \<Rightarrow> int" where
  "localYear e = (case civil (localTime e div msPerDay) of (y, m, d) \<Rightarrow> y)"

definition localDate :: "env \<Rightarrow> jsstring" where
  "localDate e =
     (case civil (localTime e div msPerDay) of
        (y, m, d) \<Rightarrow> pad 4 (nat y) @ str ''-'' @ pad 2 (nat m) @ str ''-'' @ pad 2 (nat d))"

fun message :: "env \<Rightarrow> js_error \<Rightarrow> jsstring" where
  "message e (Error msg) = msg"
| "message e (TypeError t) = typeErrorMessage e t"
| "message e URIError = uriErrorMessage e"
| "message e (Rejected msg) = msg"

subsection \<open>The page\<close>

text \<open>
  The five elements the file looks up, by what it reads and writes of them: the value of
  the date input, the \<^verbatim>\<open>disabled\<close> flag of each button, the text of the status line, the
  text of each item of the list in order, and the console.
\<close>

record dom =
  date_value :: jsstring
  btnToday_disabled :: bool
  btnLoad_disabled :: bool
  status_text :: jsstring
  list_items :: "jsstring list"
  console :: "js_error list"

definition setStatus :: "jsstring \<Rightarrow> dom \<Rightarrow> dom" where
  "setStatus msg d = d\<lparr>status_text := msg\<rparr>"

definition setLoading :: "bool \<Rightarrow> dom \<Rightarrow> dom" where
  "setLoading on d = d\<lparr>btnToday_disabled := on, btnLoad_disabled := on\<rparr>"

text \<open>An \<^verbatim>\<open>li\<close> element is its text; \<^verbatim>\<open>$list.innerHTML = ""\<close> removes every item.\<close>

definition li :: "jsstring \<Rightarrow> jsstring" where
  "li txt = txt"

definition appendChild :: "jsstring \<Rightarrow> dom \<Rightarrow> dom" where
  "appendChild el d = d\<lparr>list_items := list_items d @ [el]\<rparr>"

definition clearList :: "dom \<Rightarrow> dom" where
  "clearList d = d\<lparr>list_items := []\<rparr>"

subsection \<open>The API base\<close>

text \<open>
  \<^verbatim>\<open>new URL(location.href)\<close> is the browser's parser: its outcome, the three components the
  file reads or the exception, is the argument.
\<close>

record url =
  protocol :: jsstring
  hostname :: jsstring
  port :: jsstring

definition API :: "js_error + url \<Rightarrow> jsstring" where
  "API parsed =
     (case parsed of
        Inl err \<Rightarrow> str ''http://127.0.0.1:8000''
      | Inr u \<Rightarrow>
          if port u = str ''5500'' then str ''http://127.0.0.1:8000''
          else protocol u @ str ''//'' @ hostname u @ (if port u \<noteq> [] then str '':'' @ port u else []))"

subsection \<open>fetchJSON\<close>

text \<open>
  A response: its status, and what reading its body as text and as JSON gives.
  \<^verbatim>\<open>res.ok\<close> is a status from 200 to 299.
\<close>

record response =
  status :: nat
  body_text :: "js_error + jsstring"
  body_json :: "js_error + jsval"

definition ok :: "response \<Rightarrow> bool" where
  "ok res = (200 \<le> status res \<and> status res \<le> 299)"

text \<open>\<open>fetched\<close> is what \<^verbatim>\<open>await fetch(url, ...)\<close> gives: a response, or the rejection.\<close>

definition fetchJSON :: "jsstring \<Rightarrow> js_error + response \<Rightarrow> js_error + jsval" where
  "fetchJSON u fetched =
     andThen fetched (\<lambda>res.
       if \<not> ok res then
         (let txt = (case body_text res of Inl err \<Rightarrow> [] | Inr t \<Rightarrow> t)
          in Inl (Error (str ''HTTP '' @ digits (status res) @ str '' '' @ [bullet] @ str '' ''
                         @ (if txt \<noteq> [] then txt else u))))
       else body_json res)"

subsection \<open>renderMatches\<close>

definition whenArg :: "env \<Rightarrow> jsval \<Rightarrow> js_error + jsval" where
  "whenArg e m =
     andThen (getProp m P_date_utc) (\<lambda>a. if truthy a then Inr a else
     andThen (getProp m P_date) (\<lambda>b. if truthy b then Inr b else
     andThen (getProp m P_kickoff) (\<lambda>c. if truthy c then Inr c else
     Inr (JNum (now e)))))"

definition timeLocal :: "env \<Rightarrow> jsval \<Rightarrow> js_error + jsstring" where
  "timeLocal e m =
     andThen (whenArg e m) (\<lambda>w.
     andThen (toPrimitive w) (\<lambda>p. Inr (toLocaleString e p)))"

definition league :: "jsval \<Rightarrow> js_error + jsval" where
  "league m =
     andThen (getProp m P_league_name) (\<lambda>a. if truthy a then Inr a else
     andThen (getProp m P_league) (\<lambda>l. let b = optProp l P_name in if truthy b then Inr b else
     andThen (getProp m P_competition) (\<lambda>c. if truthy c then Inr c else
     Inr (JStr [em_dash]))))"

definition home :: "jsval \<Rightarrow> js_error + jsval" where
  "home m =
     andThen (getProp m P_home_team) (\<lambda>a. if truthy a then Inr a else
     andThen (getProp m P_home) (\<lambda>b. if truthy b then Inr b else
     andThen (getProp m P_teams) (\<lambda>t. let c = optProp (optProp t P_home) P_name in if truthy c then Inr c else
     Inr (JStr (str ''Home'')))))"

definition away :: "jsval \<Rightarrow> js_error + jsval" where
  "away m =
     andThen (getProp m P_away_team) (\<lambda>a. if truthy a then Inr a else
     andThen (getProp m P_away) (\<lambda>b. if truthy b then Inr b else
     andThen (getProp m P_teams) (\<lambda>t. let c = optProp (optProp t P_away) P_name in if truthy c then Inr c else
     Inr (JStr (str ''Away'')))))"

text \<open>\<^verbatim>\<open>x == null\<close> holds of \<^verbatim>\<open>null\<close> and \<^verbatim>\<open>undefined\<close> only.\<close>

definition score :: "jsval \<Rightarrow> js_error + jsstring" where
  "score m =
     andThen (getProp m P_home_goals) (\<lambda>hg. if nullish hg then Inr (str ''vs'') else
     andThen (getProp m P_away_goals) (\<lambda>ag. if nullish ag then Inr (str ''vs'') else
     andThen (toString hg) (\<lambda>h.
     andThen (toString ag) (\<lambda>a. Inr (h @ [en_dash] @ a)))))"

text \<open>The body of the loop, up to the line it appends.\<close>

definition matchLine :: "env \<Rightarrow> jsval \<Rightarrow> js_error + jsstring" where
  "matchLine e m =
     andThen (timeLocal e m) (\<lambda>t.
     andThen (league m) (\<lambda>lg.
     andThen (home m) (\<lambda>hm.
     andThen (away m) (\<lambda>aw.
     andThen (score m) (\<lambda>sc.
     andThen (toString lg) (\<lambda>ls.
     andThen (toString hm) (\<lambda>hs.
     andThen (toString aw) (\<lambda>as.
       Inr (str ''['' @ ls @ str ''] '' @ hs @ str '' '' @ sc @ str '' '' @ as
            @ str '' '' @ [em_dash] @ str '' '' @ t)))))))))"

text \<open>
  What \<^verbatim>\<open>for (const m of matches)\<close> walks: the elements of an array, the code points of a
  string (a surrogate pair is one of them); anything else is not iterable.
\<close>

fun codePoints :: "jsstring \<Rightarrow> jsstring list" where
  "codePoints [] = []"
| "codePoints [c] = [c] # []"
| "codePoints (c # d # cs) =
     (if 0xD800 \<le> c \<and> c \<le> 0xDBFF \<and> 0xDC00 \<le> d \<and> d \<le> 0xDFFF
      then [c, d] # codePoints cs else [c] # codePoints (d # cs))"

definition iterItems :: "jsval \<Rightarrow> js_error + jsval list" where
  "iterItems v =
     (case v of
        JArr xs \<Rightarrow> Inr xs
      | JStr s \<Rightarrow> Inr (map JStr (codePoints s))
      | _ \<Rightarrow> Inl (TypeError NotIterable))"

text \<open>
  A run that throws leaves the page as it was at the throw: the result is the exception,
  if any, and the page.
\<close>

fun renderLoop :: "env \<Rightarrow> jsval list \<Rightarrow> dom \<Rightarrow> (js_error + unit) \<times> dom" where
  "renderLoop e [] d = (Inr (), d)"
| "renderLoop e (m # ms) d =
     (case matchLine e m of
        Inl err \<Rightarrow> (Inl err, d)
      | Inr line \<Rightarrow> renderLoop e ms (appendChild (li line) d))"

definition displayDate :: "env \<Rightarrow> jsval \<Rightarrow> jsval" where
  "displayDate e payload =
     (let d = optProp payload P_date in if nullish d then JStr (toLocalISODate e) else d)"

definition matchList :: "jsval \<Rightarrow> jsval" where
  "matchList payload =
     (case payload of
        JArr xs \<Rightarrow> payload
      | _ \<Rightarrow> (let ms = optProp payload P_matches in if nullish ms then JArr [] else ms))"

definition statusLine :: "jsval \<Rightarrow> jsval \<Rightarrow> js_error + jsstring" where
  "statusLine date matches =
     andThen (toString date) (\<lambda>ds.
     andThen (getProp matches P_length) (\<lambda>len.
     andThen (toString len) (\<lambda>ls.
       Inr (str ''date: '' @ ds @ str '' '' @ [bullet] @ str '' matches: '' @ ls))))"

definition renderMatches :: "env \<Rightarrow> jsval \<Rightarrow> dom \<Rightarrow> (js_error + unit) \<times> dom" where
  "renderMatches e payload d0 =
     (let date = displayDate e payload;
          matches = matchList payload;
          d1 = clearList d0
      in case statusLine date matches of
           Inl err \<Rightarrow> (Inl err, d1)
         | Inr msg \<Rightarrow>
             (let d2 = setStatus msg d1
              in case getProp matches P_length of
                   Inl err \<Rightarrow> (Inl err, d2)
                 | Inr len \<Rightarrow>
                     if \<not> truthy len
                     then (Inr (), appendChild (li (str ''No matches for this date.'')) d2)
                     else (case iterItems matches of
                             Inl err \<Rightarrow> (Inl err, d2)
                           | Inr ms \<Rightarrow> renderLoop e ms d2)))"

text \<open>
  A value is clean when no object in it, through arrays and properties, has an own property
  \<^verbatim>\<open>toString\<close>: then every conversion to a string succeeds.
\<close>

fun clean :: "jsval \<Rightarrow> bool" where
  "clean (JArr xs) = (\<forall>x \<in> set xs. clean x)"
| "clean (JObj kvs) = (str ''toString'' \<notin> fst ` set kvs \<and> (\<forall>(k, v) \<in> set kvs. clean v))"
| "clean v = True"

subsection \<open>encodeURIComponent\<close>

text \<open>
  Letters, digits and \<^verbatim>\<open>- _ . ! ~ * ' ( )\<close> stay; any other code point is written as the
  bytes of its UTF-8 encoding, each as \<^verbatim>\<open>%XX\<close>; a surrogate without its partner is a
  URIError.
\<close>

definition unreserved :: "16 word \<Rightarrow> bool" where
  "unreserved c =
     ((0x41 \<le> c \<and> c \<le> 0x5A) \<or> (0x61 \<le> c \<and> c \<le> 0x7A) \<or> (0x30 \<le> c \<and> c \<le> 0x39)
      \<or> c \<in> set (str ''-_.!~*()'') \<or> c = 0x27)"

definition hexDigit :: "nat \<Rightarrow> 16 word" where
  "hexDigit n = (if n < 10 then of_nat (48 + n) else of_nat (55 + n))"

definition percent :: "nat \<Rightarrow> jsstring" where
  "percent b = [0x25, hexDigit (b div 16), hexDigit (b mod 16)]"

definition utf8 :: "nat \<Rightarrow> nat list" where
  "utf8 cp =
     (if cp < 0x80 then [cp]
      else if cp < 0x800 then [0xC0 + cp div 0x40, 0x80 + cp mod 0x40]
      else if cp < 0x10000 then [0xE0 + cp div 0x1000, 0x80 + cp div 0x40 mod 0x40, 0x80 + cp mod 0x40]
      else [0xF0 + cp div 0x40000, 0x80 + cp div 0x1000 mod 0x40, 0x80 + cp div 0x40 mod 0x40,
            0x80 + cp mod 0x40])"

definition escaped :: "nat \<Rightarrow> jsstring" where
  "escaped cp = concat (map percent (utf8 cp))"

fun encodeURIComponent :: "jsstring \<Rightarrow> js_error + jsstring" where
  "encodeURIComponent [] = Inr []"
| "encodeURIComponent (c # cs) =
     (if unreserved c then andThen (encodeURIComponent cs) (\<lambda>r. Inr (c # r))
      else if 0xDC00 \<le> c \<and> c \<le> 0xDFFF then Inl URIError
      else if 0xD800 \<le> c \<and> c \<le> 0xDBFF then
        (case cs of
           [] \<Rightarrow> Inl URIError
         | d # ds \<Rightarrow>
             if 0xDC00 \<le> d \<and> d \<le> 0xDFFF
             then andThen (encodeURIComponent ds) (\<lambda>r.
                    Inr (escaped (0x10000 + (unat c - 0xD800) * 0x400 + (unat d - 0xDC00)) @ r))
             else Inl URIError)
      else andThen (encodeURIComponent cs) (\<lambda>r. Inr (escaped (unat c) @ r)))"

subsection \<open>The actions\<close>

text \<open>
  An action runs to its \<^verbatim>\<open>await\<close>, where the request is out and the page is whatever the
  action left; it resumes when the request settles. \<open>api\<close> is the constant \<^verbatim>\<open>API\<close>.
\<close>

definition catchBlock :: "env \<Rightarrow> js_error \<Rightarrow> dom \<Rightarrow> dom" where
  "catchBlock e err d =
     clearList (setStatus (str ''error: '' @ message e err) (d\<lparr>console := console d @ [err]\<rparr>))"

definition afterFetch :: "env \<Rightarrow> js_error + jsval \<Rightarrow> dom \<Rightarrow> dom" where
  "afterFetch e fetched d =
     setLoading False
       (case fetched of
          Inl err \<Rightarrow> catchBlock e err d
        | Inr data \<Rightarrow>
            (case renderMatches e data d of
               (Inl err, d') \<Rightarrow> catchBlock e err d'
             | (Inr u, d') \<Rightarrow> d'))"

definition fetchToday_begin :: "jsstring \<Rightarrow> dom \<Rightarrow> dom \<times> jsstring" where
  "fetchToday_begin api d =
     (setStatus (str ''loading /api/matches/today '' @ [ellipsis]) (setLoading True d),
      api @ str ''/api/matches/today'')"

definition fetchToday_resume :: "env \<Rightarrow> jsstring \<Rightarrow> js_error + response \<Rightarrow> dom \<Rightarrow> dom" where
  "fetchToday_resume e u fetched d = afterFetch e (fetchJSON u fetched) d"

text \<open>
  \<^verbatim>\<open>fetchDate\<close> may throw before any request is out, in \<^verbatim>\<open>encodeURIComponent\<close>: then it
  is over at once, through its \<^verbatim>\<open>catch\<close> and \<^verbatim>\<open>finally\<close>.
\<close>

definition fetchDate_begin :: "env \<Rightarrow> jsstring \<Rightarrow> jsstring \<Rightarrow> dom \<Rightarrow> dom \<times> jsstring option" where
  "fetchDate_begin e api dt d =
     (let d1 = setStatus (str ''loading /api/matches/date?d='' @ dt @ str '' '' @ [ellipsis])
                 (setLoading True d)
      in case encodeURIComponent dt of
           Inl err \<Rightarrow> (setLoading False (catchBlock e err d1), None)
         | Inr q \<Rightarrow> (d1, Some (api @ str ''/api/matches/date?d='' @ q)))"

definition fetchDate_resume :: "env \<Rightarrow> jsstring \<Rightarrow> js_error + response \<Rightarrow> dom \<Rightarrow> dom" where
  "fetchDate_resume e u fetched d = afterFetch e (fetchJSON u fetched) d"

text \<open>The whole of an action, for a request that settles with \<open>net u\<close>.\<close>

definition fetchToday :: "env \<Rightarrow> jsstring \<Rightarrow> (jsstring \<Rightarrow> js_error + response) \<Rightarrow> dom \<Rightarrow> dom" where
  "fetchToday e api net d =
     (case fetchToday_begin api d of (d1, u) \<Rightarrow> fetchToday_resume e u (net u) d1)"

definition fetchDate :: "env \<Rightarrow> jsstring \<Rightarrow> (jsstring \<Rightarrow> js_error + response) \<Rightarrow> jsstring \<Rightarrow> dom \<Rightarrow> dom" where
  "fetchDate e api net dt d =
     (case fetchDate_begin e api dt d of
        (d1, None) \<Rightarrow> d1
      | (d1, Some u) \<Rightarrow> fetchDate_resume e u (net u) d1)"

subsection \<open>The wiring\<close>

text \<open>The argument the click handler of \<^verbatim>\<open>btnLoad\<close> gives \<^verbatim>\<open>fetchDate\<close>.\<close>

definition loadArg :: "env \<Rightarrow> dom \<Rightarrow> jsstring" where
  "loadArg e d = (if date_value d \<noteq> [] then date_value d else toLocalISODate e)"

text \<open>
  The page over time: its elements and the requests that are out. It starts with the date
  input set and \<^verbatim>\<open>fetchToday()\<close> called; a button that is not disabled can be clicked,
  the date input edited, and a request that is out settles, in any way.
\<close>

record page =
  elements :: dom
  pending :: "jsstring list"

definition startup :: "env \<Rightarrow> jsstring \<Rightarrow> dom \<Rightarrow> page" where
  "startup e api d =
     (case fetchToday_begin api (d\<lparr>date_value := toLocalISODate e\<rparr>) of
        (d1, u) \<Rightarrow> \<lparr>elements = d1, pending = [u]\<rparr>)"

definition clickToday :: "jsstring \<Rightarrow> page \<Rightarrow> page" where
  "clickToday api s =
     (case fetchToday_begin api (elements s) of
        (d1, u) \<Rightarrow> \<lparr>elements = d1, pending = pending s @ [u]\<rparr>)"

definition clickLoad :: "env \<Rightarrow> jsstring \<Rightarrow> page \<Rightarrow> page" where
  "clickLoad e api s =
     (case fetchDate_begin e api (loadArg e (elements s)) (elements s) of
        (d1, None) \<Rightarrow> \<lparr>elements = d1, pending = pending s\<rparr>
      | (d1, Some u) \<Rightarrow> \<lparr>elements = d1, pending = pending s @ [u]\<rparr>)"

definition settle :: "env \<Rightarrow> jsstring \<Rightarrow> js_error + response \<Rightarrow> page \<Rightarrow> page" where
  "settle e u fetched s =
     \<lparr>elements = afterFetch e (fetchJSON u fetched) (elements s), pending = remove1 u (pending s)\<rparr>"

inductive reachable :: "jsstring \<Rightarrow> page \<Rightarrow> bool" for api :: jsstring where
  start: "reachable api (startup e api d)"
| today: "reachable api s \<Longrightarrow> \<not> btnToday_disabled (elements s) \<Longrightarrow> reachable api (clickToday api s)"
| load: "reachable api s \<Longrightarrow> \<not> btnLoad_disabled (elements s) \<Longrightarrow> reachable api (clickLoad e api s)"
| edit: "reachable api s \<Longrightarrow> reachable api (s\<lparr>elements := (elements s)\<lparr>date_value := v\<rparr>\<rparr>)"
| settled: "reachable api s \<Longrightarrow> u \<in> set (pending s) \<Longrightarrow> reachable api (settle e u fetched s)"

subsection \<open>The two states of the page\<close>

text \<open>
  Nothing is out and both buttons can be clicked, or one request is out and neither can.
\<close>

definition quiet :: "page \<Rightarrow> bool" where
  "quiet s = (pending s = [] \<and> \<not> btnToday_disabled (elements s) \<and> \<not> btnLoad_disabled (elements s))"

definition busy :: "page \<Rightarrow> bool" where
  "busy s = (length (pending s) = 1 \<and> btnToday_disabled (elements s) \<and> btnLoad_disabled (elements s))"

subsection \<open>The shape of a date\<close>

text \<open>
  Four digits, a hyphen, two digits, a hyphen, two digits: the first ten characters of what
  \<^verbatim>\<open>toISOString\<close> gives for a year from 0 to 9999.
\<close>

definition isDigit :: "16 word \<Rightarrow> bool" where
  "isDigit c = (0x30 \<le> c \<and> c \<le> 0x39)"

definition isoDate :: "jsstring \<Rightarrow> bool" where
  "isoDate s =
     list_all2 (\<lambda>hyphen c. if hyphen then c = 0x2D else isDigit c)
       [False, False, False, False, True, False, False, True, False, False] s"

subsection \<open>Sample inputs\<close>

text \<open>
  A browser at noon UTC on 1 May 2024, one ten hours ahead of UTC where it is 06:00 on
  2 May 2024, one at the first instant of the year 10000, a page with nothing on it, the base of a local
  backend, a response with status 500 and body \<^verbatim>\<open>boom\<close>, one with status 404 and
  an empty body, and a match record.
\<close>

definition env0 :: env where
  "env0 = \<lparr>now = 1714564800000, timezoneOffset = 0,
            toISOString = (\<lambda>t. str ''2024-05-01T12:00:00.000Z''),
            toLocaleString = (\<lambda>p. str ''5/1/2024, 12:00:00 PM''),
            typeErrorMessage = (\<lambda>t. str ''TypeError''),
            uriErrorMessage = str ''URI malformed''\<rparr>"

definition envAhead :: env where
  "envAhead = \<lparr>now = 1714593600000, timezoneOffset = - 600,
               toISOString = isoString,
               toLocaleString = (\<lambda>p. str ''02/05/2024, 06:00:00''),
               typeErrorMessage = (\<lambda>t. str ''TypeError''),
               uriErrorMessage = str ''URI malformed''\<rparr>"

definition env10000 :: env where
  "env10000 = \<lparr>now = 253402300800000, timezoneOffset = 0,
                toISOString = isoString,
                toLocaleString = (\<lambda>p. str ''1/1/10000, 12:00:00 AM''),
                typeErrorMessage = (\<lambda>t. str ''TypeError''),
                uriErrorMessage = str ''URI malformed''\<rparr>"

definition dom0 :: dom where
  "dom0 = \<lparr>date_value = [], btnToday_disabled = False, btnLoad_disabled = False,
            status_text = [], list_items = [], console = []\<rparr>"

definition api0 :: jsstring where
  "api0 = str ''http://127.0.0.1:8000''"

definition boom500 :: response where
  "boom500 = \<lparr>status = 500, body_text = Inr (str ''boom''), body_json = Inl (Rejected [])\<rparr>"

definition gone404 :: response where
  "gone404 = \<lparr>status = 404, body_text = Inr [], body_json = Inl (Rejected [])\<rparr>"

definition match1 :: jsval where
  "match1 = JObj [(str ''date_utc'', JStr (str ''2024-05-01T12:00:00Z'')),
                  (str ''league_name'', JStr (str ''PL'')),
                  (str ''home_team'', JStr (str ''Arsenal'')),
                  (str ''away_team'', JStr (str ''Chelsea'')),
                  (str ''home_goals'', JNum 1), (str ''away_goals'', JNum 0)]"

section \<open>Basic facts\<close>

declare digits.simps [simp del]

declare bitLength.simps [simp del]

declare shortest.simps [simp del]

lemma andThen_Inr [simp]: "andThen (Inr x) f = f x"
  by (simp add: andThen_def)

lemma andThen_Inl [simp]: "andThen (Inl err) f = Inl err"
  by (simp add: andThen_def)

lemma of_char_word_eq_iff: "(of_char c :: 16 word) = of_char c' \<longleftrightarrow> c = c'"
proof
  assume eq: "(of_char c :: 16 word) = of_char c'"
  have small: "(of_char x :: nat) < 2 ^ 16" for x
    by (rule less_trans [OF nat_of_char_less_256]) simp
  have "unat (of_nat (of_char c) :: 16 word) = unat (of_nat (of_char c') :: 16 word)"
    using eq by (simp add: of_nat_of_char)
  then have "(of_char c :: nat) = of_char c'"
    using small [of c] small [of c'] by (simp add: unat_of_nat)
  then show "c = c'" by simp
qed simp

lemma str_eq_iff [simp]: "str a = str b \<longleftrightarrow> a = b"
  unfolding str_def
  by (rule inj_map_eq_map) (simp add: inj_on_def of_char_word_eq_iff)

lemma str_Nil [simp]: "str [] = []"
  by (simp add: str_def)

lemma str_eq_Nil_iff [simp]: "str a = [] \<longleftrightarrow> a = []"
  by (simp add: str_def)

lemma Nil_eq_str_iff [simp]: "[] = str a \<longleftrightarrow> a = []"
  by (simp add: str_def)

lemma str_append: "str (a @ b) = str a @ str b"
  by (simp add: str_def)

lemma nullish_simps [simp]:
  "nullish JUndefined" "nullish JNull" "\<not> nullish (JBool b)" "\<not> nullish (JNumber t)"
  "\<not> nullish (JNum i)"
  "\<not> nullish (JStr s)" "\<not> nullish (JArr xs)" "\<not> nullish (JObj kvs)"
  by (simp_all add: nullish_def JNum_def)

lemma JNum_simps [simp]:
  "toString (JNum i) = Inr (numToString i)"
  "optProp (JNum i) p = JUndefined"
  "clean (JNum i)"
  "JNum i \<noteq> JArr xs"
  "toPrimitive (JNum i) = Inr (JNum i)"
  "matchList (JNum i) = JArr []"
  "displayDate e (JNum i) = JStr (toLocalISODate e)"
  by (simp_all add: JNum_def toPrimitive_def matchList_def displayDate_def)

lemma toPrimitive_simps [simp]:
  "toPrimitive (JStr s) = Inr (JStr s)"
  "toPrimitive (JNumber t) = Inr (JNumber t)"
  "toPrimitive (JBool b) = Inr (JBool b)"
  by (simp_all add: toPrimitive_def)

lemma digits_length: "0 < length (digits n)"
  by (induction n rule: digits.induct) (subst digits.simps, simp)

lemma digits_are_digits: "c \<in> set (digits n) \<Longrightarrow> 0x30 \<le> c \<and> c \<le> 0x39"
proof (induction n rule: digits.induct)
  case (1 n)
  have small: "(0x30 :: 16 word) \<le> of_nat (48 + k) \<and> (of_nat (48 + k) :: 16 word) \<le> 0x39"
    if "k < 10" for k :: nat
  proof -
    have "unat (of_nat (48 + k) :: 16 word) = (48 + k) mod 2 ^ LENGTH(16)"
      by (rule unat_of_nat)
    then have "unat (of_nat (48 + k) :: 16 word) = 48 + k"
      using that by simp
    then show ?thesis
      using that by (simp only: word_le_nat_alt) simp
  qed
  show ?case
  proof (cases "n < 10")
    case True
    with "1.prems" have "c = of_nat (48 + n)"
      by (subst (asm) digits.simps) simp
    with small [OF True] show ?thesis by simp
  next
    case False
    with "1.prems" have "c \<in> set (digits (n div 10)) \<or> c = of_nat (48 + n mod 10)"
      by (subst (asm) digits.simps) auto
    then show ?thesis
    proof
      assume "c \<in> set (digits (n div 10))"
      with "1.IH" False show ?thesis by simp
    next
      assume "c = of_nat (48 + n mod 10)"
      with small [of "n mod 10"] show ?thesis by simp
    qed
  qed
qed

lemma digits_eq_zero_iff [simp]: "digits n = str ''0'' \<longleftrightarrow> n = 0"
proof
  assume z: "digits n = str ''0''"
  show "n = 0"
  proof (cases "n < 10")
    case True
    then have "digits n = [of_nat (48 + n)]"
      by (subst digits.simps) simp
    with z have "(of_nat (48 + n) :: 16 word) = 48"
      by (simp add: str_def)
    then have "unat (of_nat (48 + n) :: 16 word) = 48"
      by (simp only:) simp
    moreover have "unat (of_nat (48 + n) :: 16 word) = (48 + n) mod 2 ^ LENGTH(16)"
      by (rule unat_of_nat)
    ultimately show ?thesis
      using True by simp
  next
    case False
    then have "digits n = digits (n div 10) @ [of_nat (48 + n mod 10)]"
      by (subst digits.simps) simp
    then have "1 < length (digits n)"
      using digits_length [of "n div 10"] by simp
    with z show ?thesis by (simp add: str_def)
  qed
next
  assume "n = 0"
  then show "digits n = str ''0''"
    by (simp add: digits.simps str_def)
qed

lemma digits_not_NaN [simp]: "digits n \<noteq> str ''NaN''"
proof
  assume "digits n = str ''NaN''"
  then have "0x4E \<in> set (digits n)"
    by (simp add: str_def)
  then have "(0x30 :: 16 word) \<le> 0x4E \<and> (0x4E :: 16 word) \<le> 0x39"
    by (rule digits_are_digits)
  then show False by simp
qed

lemma truthy_length: "truthy (JNumber (digits n)) \<longleftrightarrow> n \<noteq> 0"
  by simp

lemma digits_0 [simp]: "digits 0 = str ''0''"
  by simp

lemma numToString_small:
  assumes "\<bar>i\<bar> \<le> 2 ^ 53"
  shows "numToString i = (if i < 0 then str ''-'' else []) @ digits (nat \<bar>i\<bar>)"
proof -
  have "nat \<bar>i\<bar> \<le> 2 ^ 53"
    using assms by (simp add: nat_le_iff)
  then show ?thesis
    unfolding numToString_def Let_def by (simp only: if_True)
qed

lemma numToString_nat:
  assumes "n \<le> 2 ^ 53"
  shows "numToString (int n) = digits n"
  using numToString_small [of "int n"] assms by (simp add: nat_le_iff)

lemma getProp_not_nullish [simp]: "\<not> nullish v \<Longrightarrow> getProp v p = Inr (optProp v p)"
  by (simp add: getProp_def)

lemma getProp_nullish [simp]: "nullish v \<Longrightarrow> getProp v p = Inl (TypeError NullishAccess)"
  by (simp add: getProp_def)

lemma matchList_not_nullish [simp]: "\<not> nullish (matchList payload)"
  by (cases payload) (simp_all add: matchList_def Let_def)


section \<open>The score\<close>

lemma numToString_0 [simp]: "numToString 0 = str ''0''"
  by (simp add: numToString_def digits.simps str_def)

lemma numToString_1 [simp]: "numToString 1 = str ''1''"
  by (simp add: numToString_def digits.simps str_def)

text \<open>
  Beyond \<open>2 ^ 53\<close> the text is that of the nearest double: the shortest digits that read
  back as it, with an exponent from 22 digits on.
\<close>

lemmas num_eval = numToString_def nearestDouble_def doubleToString_def exponential_def
  stripZeros_def bitLength.simps shortest.simps digits.simps str_def

lemma numToString_2_60: "numToString 1152921504606846976 = str ''1152921504606847000''"
  by (simp add: num_eval)

lemma numToString_10_21: "numToString 1000000000000000000000 = str ''1e+21''"
  by (simp add: num_eval)

lemma numToString_2_53_1: "numToString 9007199254740993 = str ''9007199254740992''"
  by (simp add: num_eval)

lemma numToString_exponent: "numToString (- 1500000000000000000000) = str ''-1.5e+21''"
  by (simp add: num_eval)

lemma score_nullish_goal:
  "\<not> nullish m \<Longrightarrow> nullish (optProp m P_home_goals) \<or> nullish (optProp m P_away_goals) \<Longrightarrow>
     score m = Inr (str ''vs'')"
  by (auto simp: score_def)

lemma score_goals:
  "\<not> nullish m \<Longrightarrow> \<not> nullish (optProp m P_home_goals) \<Longrightarrow> \<not> nullish (optProp m P_away_goals) \<Longrightarrow>
     toString (optProp m P_home_goals) = Inr h \<Longrightarrow> toString (optProp m P_away_goals) = Inr a \<Longrightarrow>
     score m = Inr (h @ [en_dash] @ a)"
  by (simp add: score_def)

text \<open>
  C2. For a match record \<open>m\<close> (anything but \<^verbatim>\<open>null\<close> and \<^verbatim>\<open>undefined\<close>), the score is
  \<^verbatim>\<open>vs\<close> when \<^verbatim>\<open>m.home_goals\<close> or \<^verbatim>\<open>m.away_goals\<close> is \<^verbatim>\<open>null\<close> or absent (absent reads
  as \<^verbatim>\<open>undefined\<close>); otherwise it is the two values as strings with an en dash between them:
  for numbers the text JavaScript writes for them, which for goal counts up to \<open>2 ^ 53\<close> is
  their decimal digits. With \<^verbatim>\<open>home_goals: null, away_goals: 2\<close> it is \<^verbatim>\<open>vs\<close>, with
  \<^verbatim>\<open>home_goals: 1, away_goals: 0\<close> it is 1, en dash, 0; with \<^verbatim>\<open>home_goals\<close> the literal
  \<^verbatim>\<open>1152921504606846976\<close> it begins \<^verbatim>\<open>1152921504606847000\<close>, with \<^verbatim>\<open>1.5\<close> it begins
  \<^verbatim>\<open>1.5\<close>.
\<close>

theorem score_vs_or_goals:
  "\<not> nullish m \<Longrightarrow>
     (nullish (optProp m P_home_goals) \<or> nullish (optProp m P_away_goals)
        \<longrightarrow> score m = Inr (str ''vs''))
   \<and> (\<forall>x y. optProp m P_home_goals = JNum x \<and> optProp m P_away_goals = JNum y
        \<longrightarrow> score m = Inr (numToString x @ [en_dash] @ numToString y))
   \<and> (\<forall>a b. a \<le> 2 ^ 53 \<and> b \<le> 2 ^ 53
          \<and> optProp m P_home_goals = JNum (int a) \<and> optProp m P_away_goals = JNum (int b)
        \<longrightarrow> score m = Inr (digits a @ [en_dash] @ digits b))
   \<and> (\<forall>s t. optProp m P_home_goals = JNumber s \<and> optProp m P_away_goals = JNumber t
        \<longrightarrow> score m = Inr (s @ [en_dash] @ t))
   \<and> (\<forall>h a. \<not> nullish (optProp m P_home_goals) \<and> \<not> nullish (optProp m P_away_goals)
          \<and> toString (optProp m P_home_goals) = Inr h \<and> toString (optProp m P_away_goals) = Inr a
        \<longrightarrow> score m = Inr (h @ [en_dash] @ a))
   \<and> score (JObj [(str ''home_goals'', JNull), (str ''away_goals'', JNum 2)]) = Inr (str ''vs'')
   \<and> score (JObj [(str ''away_goals'', JNum 2)]) = Inr (str ''vs'')
   \<and> score (JObj [(str ''home_goals'', JNum 1), (str ''away_goals'', JNum 0)])
       = Inr (str ''1'' @ [en_dash] @ str ''0'')
   \<and> score (JObj [(str ''home_goals'', JNum 1152921504606846976), (str ''away_goals'', JNum 0)])
       = Inr (str ''1152921504606847000'' @ [en_dash] @ str ''0'')
   \<and> score (JObj [(str ''home_goals'', JNumber (str ''1.5'')), (str ''away_goals'', JNum 0)])
       = Inr (str ''1.5'' @ [en_dash] @ str ''0'')"
proof (intro conjI allI impI)
  assume m: "\<not> nullish m"
  show "score m = Inr (str ''vs'')"
    if "nullish (optProp m P_home_goals) \<or> nullish (optProp m P_away_goals)"
    using m that by (rule score_nullish_goal)
  show "score m = Inr (numToString x @ [en_dash] @ numToString y)"
    if "optProp m P_home_goals = JNum x \<and> optProp m P_away_goals = JNum y" for x y
    using m that by (simp add: score_goals)
  show "score m = Inr (digits a @ [en_dash] @ digits b)"
    if "a \<le> 2 ^ 53 \<and> b \<le> 2 ^ 53
          \<and> optProp m P_home_goals = JNum (int a) \<and> optProp m P_away_goals = JNum (int b)" for a b
    using m that by (simp add: score_goals numToString_nat)
  show "score m = Inr (s @ [en_dash] @ t)"
    if "optProp m P_home_goals = JNumber s \<and> optProp m P_away_goals = JNumber t" for s t
    using m that by (simp add: score_goals)
  show "score m = Inr (h @ [en_dash] @ a)"
    if "\<not> nullish (optProp m P_home_goals) \<and> \<not> nullish (optProp m P_away_goals)
          \<and> toString (optProp m P_home_goals) = Inr h \<and> toString (optProp m P_away_goals) = Inr a" for h a
    using m that by (simp add: score_goals)
  show "score (JObj [(str ''home_goals'', JNull), (str ''away_goals'', JNum 2)]) = Inr (str ''vs'')"
    by (simp add: score_nullish_goal)
  show "score (JObj [(str ''away_goals'', JNum 2)]) = Inr (str ''vs'')"
    by (simp add: score_nullish_goal)
  show "score (JObj [(str ''home_goals'', JNum 1), (str ''away_goals'', JNum 0)])
       = Inr (str ''1'' @ [en_dash] @ str ''0'')"
    by (simp add: score_goals)
  show "score (JObj [(str ''home_goals'', JNum 1152921504606846976), (str ''away_goals'', JNum 0)])
       = Inr (str ''1152921504606847000'' @ [en_dash] @ str ''0'')"
    by (simp add: score_goals numToString_2_60)
  show "score (JObj [(str ''home_goals'', JNumber (str ''1.5'')), (str ''away_goals'', JNum 0)])
       = Inr (str ''1.5'' @ [en_dash] @ str ''0'')"
    by (simp add: score_goals)
qed

theorem score_vs_or_goals_witness:
  "\<not> nullish (JObj [(str ''home_goals'', JNum 3), (str ''away_goals'', JNum 0), (str ''away_goals'', JNull)])
   \<and> score (JObj [(str ''home_goals'', JNum 3), (str ''away_goals'', JNum 0), (str ''away_goals'', JNull)])
       = Inr (str ''vs'')
   \<and> \<not> nullish (JObj [(str ''home_goals'', JNum 0), (str ''away_goals'', JNum 1)])
   \<and> score (JObj [(str ''home_goals'', JNum 0), (str ''away_goals'', JNum 1)])
       = Inr (str ''0'' @ [en_dash] @ str ''1'')
   \<and> (7 :: nat) \<le> 2 ^ 53 \<and> (2 :: nat) \<le> 2 ^ 53
   \<and> score (JObj [(str ''home_goals'', JNum (int 7)), (str ''away_goals'', JNum (int 2))])
       = Inr (digits 7 @ [en_dash] @ digits 2)
   \<and> score (JObj [(str ''home_goals'', JNumber (str ''2.5'')), (str ''away_goals'', JNumber (str ''1e+21''))])
       = Inr (str ''2.5'' @ [en_dash] @ str ''1e+21'')"
proof -
  let ?m1 = "JObj [(str ''home_goals'', JNum 3), (str ''away_goals'', JNum 0), (str ''away_goals'', JNull)]"
  let ?m2 = "JObj [(str ''home_goals'', JNum 0), (str ''away_goals'', JNum 1)]"
  let ?m3 = "JObj [(str ''home_goals'', JNum (int 7)), (str ''away_goals'', JNum (int 2))]"
  let ?m4 = "JObj [(str ''home_goals'', JNumber (str ''2.5'')), (str ''away_goals'', JNumber (str ''1e+21''))]"
  have "score ?m1 = Inr (str ''vs'')"
    using score_vs_or_goals [of ?m1] by simp
  moreover have "score ?m2 = Inr (numToString 0 @ [en_dash] @ numToString 1)"
    using score_vs_or_goals [of ?m2] by simp
  moreover have "score ?m3 = Inr (digits 7 @ [en_dash] @ digits 2)"
  proof -
    have nn: "\<not> nullish ?m3"
      by simp
    have "\<forall>a b. a \<le> 2 ^ 53 \<and> b \<le> 2 ^ 53
          \<and> optProp ?m3 P_home_goals = JNum (int a) \<and> optProp ?m3 P_away_goals = JNum (int b)
        \<longrightarrow> score ?m3 = Inr (digits a @ [en_dash] @ digits b)"
      by (rule conjunct1 [OF conjunct2 [OF conjunct2 [OF score_vs_or_goals [OF nn]]]])
    then have "7 \<le> (2 :: nat) ^ 53 \<and> 2 \<le> (2 :: nat) ^ 53
          \<and> optProp ?m3 P_home_goals = JNum (int 7) \<and> optProp ?m3 P_away_goals = JNum (int 2)
        \<longrightarrow> score ?m3 = Inr (digits 7 @ [en_dash] @ digits 2)"
      by blast
    moreover have "optProp ?m3 P_home_goals = JNum (int 7)" "optProp ?m3 P_away_goals = JNum (int 2)"
      by simp_all
    moreover have "7 \<le> (2 :: nat) ^ 53" "2 \<le> (2 :: nat) ^ 53"
      by simp_all
    ultimately show ?thesis by blast
  qed
  moreover have "score ?m4 = Inr (str ''2.5'' @ [en_dash] @ str ''1e+21'')"
    using score_vs_or_goals [of ?m4] by simp
  ultimately show ?thesis by simp
qed

text \<open>
  C9. The test \<^verbatim>\<open>== null\<close> tells the number 0 from \<^verbatim>\<open>null\<close> and absent: a match with
  \<^verbatim>\<open>home_goals: 0\<close> and \<^verbatim>\<open>away_goals: 0\<close> has the score 0, en dash, 0, which is not \<^verbatim>\<open>vs\<close>.
\<close>

theorem score_zero_is_a_goal_count:
  "\<not> nullish m \<Longrightarrow> optProp m P_home_goals = JNum 0 \<Longrightarrow> optProp m P_away_goals = JNum 0 \<Longrightarrow>
     score m = Inr (str ''0'' @ [en_dash] @ str ''0'') \<and> score m \<noteq> Inr (str ''vs'')"
  by (simp add: score_goals str_def)

theorem score_zero_is_a_goal_count_witness:
  "score (JObj [(str ''home_goals'', JNum 0), (str ''away_goals'', JNum 0)])
     = Inr (str ''0'' @ [en_dash] @ str ''0'')
   \<and> score (JObj [(str ''home_goals'', JNum 0), (str ''away_goals'', JNum 0)]) \<noteq> Inr (str ''vs'')"
  using score_zero_is_a_goal_count [of "JObj [(str ''home_goals'', JNum 0), (str ''away_goals'', JNum 0)]"]
  by (simp add: str_def)

section \<open>The league name\<close>

text \<open>
  C6. The league of a match record follows the chain in its order, a field counting as set
  when it is truthy (present, not \<^verbatim>\<open>null\<close>, not the empty string): \<^verbatim>\<open>league_name\<close> wins
  whenever it is set, whatever \<^verbatim>\<open>league.name\<close> is; then \<^verbatim>\<open>league.name\<close>; with neither set,
  \<^verbatim>\<open>competition\<close>; with none of the three set, the em dash.
\<close>

theorem league_fallback_chain:
  "\<not> nullish m \<Longrightarrow>
     (truthy (optProp m P_league_name) \<longrightarrow> league m = Inr (optProp m P_league_name))
   \<and> (\<not> truthy (optProp m P_league_name) \<and> truthy (optProp (optProp m P_league) P_name)
        \<longrightarrow> league m = Inr (optProp (optProp m P_league) P_name))
   \<and> (\<not> truthy (optProp m P_league_name) \<and> \<not> truthy (optProp (optProp m P_league) P_name)
        \<and> truthy (optProp m P_competition)
        \<longrightarrow> league m = Inr (optProp m P_competition))
   \<and> (\<not> truthy (optProp m P_league_name) \<and> \<not> truthy (optProp (optProp m P_league) P_name)
        \<and> \<not> truthy (optProp m P_competition)
        \<longrightarrow> league m = Inr (JStr [em_dash]))"
  by (simp add: league_def Let_def)

theorem league_fallback_chain_witness:
  "league (JObj [(str ''league_name'', JStr (str ''Serie A'')),
                 (str ''league'', JObj [(str ''name'', JStr (str ''La Liga''))]),
                 (str ''competition'', JStr (str ''Cup''))]) = Inr (JStr (str ''Serie A''))
   \<and> league (JObj [(str ''league'', JObj [(str ''name'', JStr (str ''La Liga''))]),
                   (str ''competition'', JStr (str ''Cup''))]) = Inr (JStr (str ''La Liga''))
   \<and> league (JObj [(str ''league'', JNull), (str ''competition'', JStr (str ''Cup''))])
       = Inr (JStr (str ''Cup''))
   \<and> league (JObj []) = Inr (JStr [em_dash])"
  using league_fallback_chain [of "JObj [(str ''league_name'', JStr (str ''Serie A'')),
                 (str ''league'', JObj [(str ''name'', JStr (str ''La Liga''))]),
                 (str ''competition'', JStr (str ''Cup''))]"]
    league_fallback_chain [of "JObj [(str ''league'', JObj [(str ''name'', JStr (str ''La Liga''))]),
                   (str ''competition'', JStr (str ''Cup''))]"]
    league_fallback_chain [of "JObj [(str ''league'', JNull), (str ''competition'', JStr (str ''Cup''))]"]
    league_fallback_chain [of "JObj []"]
  by simp

section \<open>The API base\<close>

text \<open>
  C4. With the page URL parsed into \<open>u\<close>: port \<^verbatim>\<open>5500\<close> gives \<^verbatim>\<open>http://127.0.0.1:8000\<close>; any
  other port gives the page's own protocol, \<^verbatim>\<open>//\<close>, host name, and \<^verbatim>\<open>:port\<close> unless the port
  is empty; a parse that throws gives \<^verbatim>\<open>http://127.0.0.1:8000\<close>. The components of
  \<^verbatim>\<open>http://localhost:5500/\<close> give \<^verbatim>\<open>http://127.0.0.1:8000\<close>, those of
  \<^verbatim>\<open>https://example.com:9090/\<close> give \<^verbatim>\<open>https://example.com:9090\<close>.
\<close>

theorem API_base:
  "(port u = str ''5500'' \<longrightarrow> API (Inr u) = str ''http://127.0.0.1:8000'')
   \<and> (port u \<noteq> str ''5500'' \<and> port u \<noteq> []
        \<longrightarrow> API (Inr u) = protocol u @ str ''//'' @ hostname u @ str '':'' @ port u)
   \<and> (port u = [] \<longrightarrow> API (Inr u) = protocol u @ str ''//'' @ hostname u)
   \<and> API (Inl err) = str ''http://127.0.0.1:8000''
   \<and> API (Inr \<lparr>protocol = str ''http:'', hostname = str ''localhost'', port = str ''5500''\<rparr>)
       = str ''http://127.0.0.1:8000''
   \<and> API (Inr \<lparr>protocol = str ''https:'', hostname = str ''example.com'', port = str ''9090''\<rparr>)
       = str ''https://example.com:9090''"
  by (auto simp: API_def str_append [symmetric])

theorem API_base_witness:
  "API (Inr \<lparr>protocol = str ''http:'', hostname = str ''127.0.0.1'', port = str ''5500''\<rparr>)
     = str ''http://127.0.0.1:8000''
   \<and> API (Inr \<lparr>protocol = str ''http:'', hostname = str ''example.org'', port = str ''8080''\<rparr>)
     = str ''http:'' @ str ''//'' @ str ''example.org'' @ str '':'' @ str ''8080''
   \<and> API (Inr \<lparr>protocol = str ''https:'', hostname = str ''example.org'', port = []\<rparr>)
     = str ''https:'' @ str ''//'' @ str ''example.org''"
  using API_base [of "\<lparr>protocol = str ''http:'', hostname = str ''127.0.0.1'', port = str ''5500''\<rparr>"]
    API_base [of "\<lparr>protocol = str ''http:'', hostname = str ''example.org'', port = str ''8080''\<rparr>"]
    API_base [of "\<lparr>protocol = str ''https:'', hostname = str ''example.org'', port = []\<rparr>"]
  by simp

section \<open>The fetch wrapper and the error path\<close>

lemma fetchJSON_not_ok:
  "\<not> ok res \<Longrightarrow>
     fetchJSON u (Inr res) =
       Inl (Error (str ''HTTP '' @ digits (status res) @ str '' '' @ [bullet] @ str '' ''
                   @ (case body_text res of Inl err \<Rightarrow> u | Inr t \<Rightarrow> if t \<noteq> [] then t else u)))"
  by (simp add: fetchJSON_def Let_def split: sum.splits)

lemma catchBlock_fields [simp]:
  "status_text (catchBlock e err d) = str ''error: '' @ message e err"
  "list_items (catchBlock e err d) = []"
  "btnToday_disabled (catchBlock e err d) = btnToday_disabled d"
  "btnLoad_disabled (catchBlock e err d) = btnLoad_disabled d"
  "date_value (catchBlock e err d) = date_value d"
  by (simp_all add: catchBlock_def clearList_def setStatus_def)

lemma setLoading_fields [simp]:
  "status_text (setLoading on d) = status_text d"
  "list_items (setLoading on d) = list_items d"
  "btnToday_disabled (setLoading on d) = on"
  "btnLoad_disabled (setLoading on d) = on"
  "date_value (setLoading on d) = date_value d"
  by (simp_all add: setLoading_def)

lemma afterFetch_error [simp]:
  "afterFetch e (Inl err) d = setLoading False (catchBlock e err d)"
  by (simp add: afterFetch_def)

lemma afterFetch_enables [simp]:
  "\<not> btnToday_disabled (afterFetch e fetched d)" "\<not> btnLoad_disabled (afterFetch e fetched d)"
  by (simp_all add: afterFetch_def)

lemma digits_500: "digits 500 = str ''500''"
  by (simp add: digits.simps str_def)

text \<open>
  C3. On a response whose status is not from 200 to 299, \<open>fetchJSON\<close> throws an
  \<^verbatim>\<open>Error\<close> whose message is \<^verbatim>\<open>HTTP\<close>, the status in decimal, a bullet, and the body
  text, or the request URL when the body is empty or cannot be read. Either action, resumed
  with such a response, shows \<^verbatim>\<open>error:\<close> and that message as the status and leaves the
  list empty. A status of 500 with body \<^verbatim>\<open>boom\<close> gives the message \<^verbatim>\<open>HTTP 500\<close>, bullet,
  \<^verbatim>\<open>boom\<close>.
\<close>

theorem fetchJSON_http_error:
  "\<not> ok res \<Longrightarrow>
     (\<forall>t. body_text res = Inr t \<and> t \<noteq> []
        \<longrightarrow> fetchJSON u (Inr res)
            = Inl (Error (str ''HTTP '' @ digits (status res) @ str '' '' @ [bullet] @ str '' '' @ t)))
   \<and> (body_text res = Inr [] \<or> (\<exists>err. body_text res = Inl err)
        \<longrightarrow> fetchJSON u (Inr res)
            = Inl (Error (str ''HTTP '' @ digits (status res) @ str '' '' @ [bullet] @ str '' '' @ u)))
   \<and> (\<exists>msg. fetchJSON u (Inr res) = Inl (Error msg)
          \<and> status_text (fetchToday_resume e u (Inr res) d) = str ''error: '' @ msg
          \<and> list_items (fetchToday_resume e u (Inr res) d) = []
          \<and> status_text (fetchDate_resume e u (Inr res) d) = str ''error: '' @ msg
          \<and> list_items (fetchDate_resume e u (Inr res) d) = [])
   \<and> (status res = 500 \<and> body_text res = Inr (str ''boom'')
        \<longrightarrow> fetchJSON u (Inr res) = Inl (Error (str ''HTTP 500 '' @ [bullet] @ str '' boom''))
          \<and> status_text (fetchToday_resume e u (Inr res) d)
              = str ''error: HTTP 500 '' @ [bullet] @ str '' boom''
          \<and> list_items (fetchToday_resume e u (Inr res) d) = []
          \<and> status_text (fetchDate_resume e u (Inr res) d)
              = str ''error: HTTP 500 '' @ [bullet] @ str '' boom''
          \<and> list_items (fetchDate_resume e u (Inr res) d) = [])"
  by (auto simp: fetchJSON_not_ok fetchToday_resume_def fetchDate_resume_def digits_500
        str_append [symmetric] simp del: str_eq_iff)

theorem fetchJSON_http_error_witness:
  "\<not> ok boom500
   \<and> fetchJSON (str ''http://127.0.0.1:8000/api/matches/today'') (Inr boom500)
       = Inl (Error (str ''HTTP 500 '' @ [bullet] @ str '' boom''))
   \<and> status_text (fetchToday_resume env0 (str ''http://127.0.0.1:8000/api/matches/today'') (Inr boom500) dom0)
       = str ''error: HTTP 500 '' @ [bullet] @ str '' boom''
   \<and> list_items (fetchToday_resume env0 (str ''http://127.0.0.1:8000/api/matches/today'') (Inr boom500) dom0) = []
   \<and> \<not> ok gone404
   \<and> fetchJSON (str ''http://127.0.0.1:8000/api/matches/today'') (Inr gone404)
       = Inl (Error (str ''HTTP 404 '' @ [bullet] @ str '' http://127.0.0.1:8000/api/matches/today''))"
proof -
  have d404: "digits 404 = str ''404''"
    by (simp add: digits.simps str_def)
  show ?thesis
    using fetchJSON_http_error [of boom500 "str ''http://127.0.0.1:8000/api/matches/today''" env0 dom0]
      fetchJSON_http_error [of gone404 "str ''http://127.0.0.1:8000/api/matches/today''" env0 dom0]
    by (simp add: ok_def boom500_def gone404_def digits_500 d404 str_def)
qed

section \<open>Rendering\<close>

lemma statusLine_array:
  "toString date = Inr ds \<Longrightarrow>
     statusLine date (JArr ms)
       = Inr (str ''date: '' @ ds @ str '' '' @ [bullet] @ str '' matches: '' @ digits (length ms))"
  by (simp add: statusLine_def)

lemma matchList_array [simp]: "matchList (JArr xs) = JArr xs"
  by (simp add: matchList_def)

lemma displayDate_array [simp]: "displayDate e (JArr xs) = JStr (toLocalISODate e)"
  by (simp add: displayDate_def)

lemma matchList_not_array:
  "\<forall>xs. payload \<noteq> JArr xs \<Longrightarrow>
     matchList payload
       = (if nullish (optProp payload P_matches) then JArr [] else optProp payload P_matches)"
  by (cases payload) (simp_all add: matchList_def Let_def)

lemma renderMatches_empty:
  assumes "matchList payload = JArr []" and "toString (displayDate e payload) = Inr ds"
  shows "renderMatches e payload d
           = (Inr (), d\<lparr>status_text := str ''date: '' @ ds @ str '' '' @ [bullet] @ str '' matches: 0'',
                          list_items := [str ''No matches for this date.'']\<rparr>)"
  using assms
  by (simp add: renderMatches_def Let_def statusLine_array setStatus_def clearList_def
        appendChild_def li_def str_append [symmetric])

lemma renderLoop_all_rendered:
  "\<forall>m \<in> set ms. \<exists>l. matchLine e m = Inr l \<Longrightarrow>
     \<exists>ls. list_all2 (\<lambda>m l. matchLine e m = Inr l) ms ls
        \<and> renderLoop e ms d = (Inr (), d\<lparr>list_items := list_items d @ ls\<rparr>)"
proof (induction ms arbitrary: d)
  case Nil
  then show ?case by simp
next
  case (Cons m ms)
  from Cons.prems obtain l where l: "matchLine e m = Inr l" by auto
  from Cons.prems have "\<forall>m \<in> set ms. \<exists>l. matchLine e m = Inr l" by simp
  from Cons.IH [OF this, of "appendChild (li l) d"]
  obtain ls where ls: "list_all2 (\<lambda>m l. matchLine e m = Inr l) ms ls"
    and run: "renderLoop e ms (appendChild (li l) d)
                = (Inr (), (appendChild (li l) d)\<lparr>list_items := list_items (appendChild (li l) d) @ ls\<rparr>)"
    by blast
  have "list_all2 (\<lambda>m l. matchLine e m = Inr l) (m # ms) (l # ls)"
    using l ls by simp
  moreover have "renderLoop e (m # ms) d = (Inr (), d\<lparr>list_items := list_items d @ (l # ls)\<rparr>)"
    using l run by (simp add: appendChild_def li_def)
  ultimately show ?case by blast
qed

lemma renderMatches_array:
  assumes ms: "matchList payload = JArr ms" "ms \<noteq> []"
    and ds: "toString (displayDate e payload) = Inr ds"
    and ok: "\<forall>m \<in> set ms. \<exists>l. matchLine e m = Inr l"
  shows "\<exists>ls. list_all2 (\<lambda>m l. matchLine e m = Inr l) ms ls
           \<and> renderMatches e payload d
               = (Inr (), d\<lparr>status_text := str ''date: '' @ ds @ str '' '' @ [bullet]
                                            @ str '' matches: '' @ digits (length ms),
                             list_items := ls\<rparr>)"
proof -
  let ?d2 = "setStatus (str ''date: '' @ ds @ str '' '' @ [bullet] @ str '' matches: '' @ digits (length ms))
               (clearList d)"
  from renderLoop_all_rendered [OF ok, of ?d2]
  obtain ls where ls: "list_all2 (\<lambda>m l. matchLine e m = Inr l) ms ls"
    and run: "renderLoop e ms ?d2 = (Inr (), ?d2\<lparr>list_items := list_items ?d2 @ ls\<rparr>)"
    by blast
  have "renderMatches e payload d = renderLoop e ms ?d2"
    using ms ds by (simp add: renderMatches_def Let_def statusLine_array iterItems_def)
  with run ls show ?thesis
    by (auto simp: setStatus_def clearList_def)
qed

lemma matchLine_nullish: "nullish m \<Longrightarrow> matchLine e m = Inl (TypeError NullishAccess)"
  by (simp add: matchLine_def timeLocal_def whenArg_def)

lemma whenArg_total: "\<not> nullish m \<Longrightarrow> \<exists>w. whenArg e m = Inr w"
  by (simp add: whenArg_def)

lemma league_total: "\<not> nullish m \<Longrightarrow> \<exists>v. league m = Inr v"
  by (simp add: league_def Let_def)

lemma home_total: "\<not> nullish m \<Longrightarrow> \<exists>v. home m = Inr v"
  by (simp add: home_def Let_def)

lemma away_total: "\<not> nullish m \<Longrightarrow> \<exists>v. away m = Inr v"
  by (simp add: away_def Let_def)

lemma matchLine_renders:
  assumes "\<not> nullish m"
    and "whenArg e m = Inr w" "toPrimitive w = Inr p"
    and "league m = Inr lg" "toString lg = Inr ls"
    and "home m = Inr hm" "toString hm = Inr hs"
    and "away m = Inr aw" "toString aw = Inr as"
    and "score m = Inr sc"
  shows "matchLine e m
           = Inr (str ''['' @ ls @ str ''] '' @ hs @ str '' '' @ sc @ str '' '' @ as
                  @ str '' '' @ [em_dash] @ str '' '' @ toLocaleString e p)"
  using assms by (simp add: matchLine_def timeLocal_def)

lemma toString_clean:
  "clean v \<Longrightarrow> \<exists>s. toString v = Inr s"
  "\<forall>x \<in> set xs. clean x \<Longrightarrow> \<exists>s. joinElems xs = Inr s"
proof (induction v and xs rule: toString_joinElems.induct)
  case (10 x y ys)
  from "10.prems" have cx: "clean x" and rest: "\<forall>z \<in> set (y # ys). clean z"
    by simp_all
  obtain s where s: "(if nullish x then Inr [] else toString x) = Inr s"
    using "10.IH"(1) cx by (cases "nullish x") auto
  obtain t where t: "joinElems (y # ys) = Inr t"
    using "10.IH"(2) rest by blast
  show ?case
    using s t by (simp del: joinElems.simps(2) add: joinElems.simps(3))
qed simp_all

lemma optProp_clean: "clean v \<Longrightarrow> clean (optProp v p)"
proof (cases v)
  case (JObj kvs)
  assume c: "clean v"
  show ?thesis
  proof (cases "map_of (rev kvs) (key p)")
    case None
    with JObj show ?thesis by simp
  next
    case (Some w)
    then have "(key p, w) \<in> set (rev kvs)"
      by (rule map_of_SomeD)
    then have "(key p, w) \<in> set kvs"
      by simp
    with c JObj have "clean w" by auto
    with JObj Some show ?thesis by simp
  qed
qed simp_all

lemma toPrimitive_clean: "clean v \<Longrightarrow> \<exists>p. toPrimitive v = Inr p"
proof (cases v)
  case (JArr xs)
  assume "clean v"
  then obtain s where "toString v = Inr s" using toString_clean(1) by blast
  with JArr show ?thesis by (simp add: toPrimitive_def del: toString.simps)
next
  case (JObj kvs)
  assume "clean v"
  then obtain s where "toString v = Inr s" using toString_clean(1) by blast
  with JObj show ?thesis by (simp add: toPrimitive_def del: toString.simps)
qed (simp_all add: toPrimitive_def)

lemma whenArg_clean:
  assumes "\<not> nullish m" "clean m"
  shows "\<exists>w. whenArg e m = Inr w \<and> clean w"
proof -
  have "clean (optProp m P_date_utc)" "clean (optProp m P_date)" "clean (optProp m P_kickoff)"
    using assms(2) by (rule optProp_clean)+
  with assms(1) show ?thesis
    by (simp add: whenArg_def)
qed

lemma league_clean:
  assumes "\<not> nullish m" "clean m"
  shows "\<exists>v. league m = Inr v \<and> clean v"
proof -
  have "clean (optProp m P_league_name)" "clean (optProp m P_competition)"
    using assms(2) by (rule optProp_clean)+
  moreover have "clean (optProp (optProp m P_league) P_name)"
    by (intro optProp_clean assms(2))
  ultimately show ?thesis
    using assms(1) by (simp add: league_def Let_def)
qed

lemma home_clean:
  assumes "\<not> nullish m" "clean m"
  shows "\<exists>v. home m = Inr v \<and> clean v"
proof -
  have "clean (optProp m P_home_team)" "clean (optProp m P_home)"
    using assms(2) by (rule optProp_clean)+
  moreover have "clean (optProp (optProp (optProp m P_teams) P_home) P_name)"
    by (intro optProp_clean assms(2))
  ultimately show ?thesis
    using assms(1) by (simp add: home_def Let_def)
qed

lemma away_clean:
  assumes "\<not> nullish m" "clean m"
  shows "\<exists>v. away m = Inr v \<and> clean v"
proof -
  have "clean (optProp m P_away_team)" "clean (optProp m P_away)"
    using assms(2) by (rule optProp_clean)+
  moreover have "clean (optProp (optProp (optProp m P_teams) P_away) P_name)"
    by (intro optProp_clean assms(2))
  ultimately show ?thesis
    using assms(1) by (simp add: away_def Let_def)
qed

lemma score_clean:
  assumes "\<not> nullish m" "clean m"
  shows "\<exists>s. score m = Inr s"
proof -
  obtain h where h: "toString (optProp m P_home_goals) = Inr h"
    using toString_clean(1) [OF optProp_clean [OF assms(2)]] by blast
  obtain a where a: "toString (optProp m P_away_goals) = Inr a"
    using toString_clean(1) [OF optProp_clean [OF assms(2)]] by blast
  show ?thesis
    using assms(1) h a by (simp add: score_def)
qed

lemma matchLine_clean:
  assumes "\<not> nullish m" "clean m"
  shows "\<exists>l. matchLine e m = Inr l"
proof -
  from assms obtain w where w: "whenArg e m = Inr w" "clean w"
    using whenArg_clean by blast
  then obtain p where p: "toPrimitive w = Inr p"
    using toPrimitive_clean by blast
  from assms obtain lg where lg: "league m = Inr lg" "clean lg"
    using league_clean by blast
  from assms obtain hm where hm: "home m = Inr hm" "clean hm"
    using home_clean by blast
  from assms obtain aw where aw: "away m = Inr aw" "clean aw"
    using away_clean by blast
  from assms obtain sc where sc: "score m = Inr sc"
    using score_clean by blast
  obtain ls where ls: "toString lg = Inr ls"
    using toString_clean(1) [OF lg(2)] by blast
  obtain hs where hs: "toString hm = Inr hs"
    using toString_clean(1) [OF hm(2)] by blast
  obtain as where as: "toString aw = Inr as"
    using toString_clean(1) [OF aw(2)] by blast
  show ?thesis
    using matchLine_renders [OF assms(1) w(1) p lg(1) ls hm(1) hs aw(1) as sc] by blast
qed

lemma displayDate_clean:
  assumes "clean payload"
  shows "\<exists>ds. toString (displayDate e payload) = Inr ds"
proof (cases "nullish (optProp payload P_date)")
  case True
  then show ?thesis by (simp add: displayDate_def Let_def)
next
  case False
  obtain ds where "toString (optProp payload P_date) = Inr ds"
    using toString_clean(1) [OF optProp_clean [OF assms]] by blast
  with False show ?thesis by (simp add: displayDate_def Let_def)
qed

lemma matchList_clean:
  assumes "clean payload" "matchList payload = JArr ms"
  shows "\<forall>m \<in> set ms. clean m"
proof -
  have "clean (matchList payload)"
  proof (cases "\<exists>xs. payload = JArr xs")
    case True
    with assms(1) show ?thesis by auto
  next
    case False
    have "clean (optProp payload P_matches)"
      using assms(1) by (rule optProp_clean)
    with False show ?thesis
      by (simp add: matchList_not_array)
  qed
  with assms(2) show ?thesis by simp
qed

text \<open>
  C5. When the match list of a payload is the empty array, \<open>renderMatches\<close> returns with
  the status \<^verbatim>\<open>date:\<close>, the display date as a string, a bullet, \<^verbatim>\<open>matches: 0\<close>, and the
  list holds the one entry \<^verbatim>\<open>No matches for this date.\<close>, whatever it held before. The
  display date is the payload's \<^verbatim>\<open>date\<close> when that is a string, today's local date when
  it is absent or \<^verbatim>\<open>null\<close>. For \<^verbatim>\<open>{date: "2024-05-01", matches: []}\<close> the status is
  \<^verbatim>\<open>date: 2024-05-01\<close>, bullet, \<^verbatim>\<open>matches: 0\<close>.
\<close>

theorem render_empty_list:
  "(\<forall>ds. matchList payload = JArr [] \<and> toString (displayDate e payload) = Inr ds
      \<longrightarrow> renderMatches e payload d
          = (Inr (), d\<lparr>status_text := str ''date: '' @ ds @ str '' '' @ [bullet] @ str '' matches: 0'',
                         list_items := [str ''No matches for this date.'']\<rparr>))
   \<and> (\<forall>s. matchList payload = JArr [] \<and> optProp payload P_date = JStr s
      \<longrightarrow> renderMatches e payload d
          = (Inr (), d\<lparr>status_text := str ''date: '' @ s @ str '' '' @ [bullet] @ str '' matches: 0'',
                         list_items := [str ''No matches for this date.'']\<rparr>))
   \<and> (matchList payload = JArr [] \<and> nullish (optProp payload P_date)
      \<longrightarrow> renderMatches e payload d
          = (Inr (), d\<lparr>status_text := str ''date: '' @ toLocalISODate e @ str '' '' @ [bullet]
                                         @ str '' matches: 0'',
                         list_items := [str ''No matches for this date.'']\<rparr>))
   \<and> renderMatches e (JObj [(str ''date'', JStr (str ''2024-05-01'')), (str ''matches'', JArr [])]) d
       = (Inr (), d\<lparr>status_text := str ''date: 2024-05-01 '' @ [bullet] @ str '' matches: 0'',
                      list_items := [str ''No matches for this date.'']\<rparr>)"
proof (intro conjI allI impI)
  fix ds
  assume "matchList payload = JArr [] \<and> toString (displayDate e payload) = Inr ds"
  then show "renderMatches e payload d
          = (Inr (), d\<lparr>status_text := str ''date: '' @ ds @ str '' '' @ [bullet] @ str '' matches: 0'',
                         list_items := [str ''No matches for this date.'']\<rparr>)"
    by (simp add: renderMatches_empty)
next
  fix s
  assume "matchList payload = JArr [] \<and> optProp payload P_date = JStr s"
  then show "renderMatches e payload d
          = (Inr (), d\<lparr>status_text := str ''date: '' @ s @ str '' '' @ [bullet] @ str '' matches: 0'',
                         list_items := [str ''No matches for this date.'']\<rparr>)"
    by (simp add: renderMatches_empty displayDate_def)
next
  assume "matchList payload = JArr [] \<and> nullish (optProp payload P_date)"
  then show "renderMatches e payload d
          = (Inr (), d\<lparr>status_text := str ''date: '' @ toLocalISODate e @ str '' '' @ [bullet]
                                         @ str '' matches: 0'',
                         list_items := [str ''No matches for this date.'']\<rparr>)"
    by (simp add: renderMatches_empty displayDate_def)
next
  let ?p = "JObj [(str ''date'', JStr (str ''2024-05-01'')), (str ''matches'', JArr [])]"
  have "matchList ?p = JArr []"
    by (simp add: matchList_def)
  moreover have "toString (displayDate e ?p) = Inr (str ''2024-05-01'')"
    by (simp add: displayDate_def)
  ultimately show "renderMatches e ?p d
       = (Inr (), d\<lparr>status_text := str ''date: 2024-05-01 '' @ [bullet] @ str '' matches: 0'',
                      list_items := [str ''No matches for this date.'']\<rparr>)"
    by (simp add: renderMatches_empty str_append [symmetric])
qed

theorem render_empty_list_witness:
  "matchList (JObj [(str ''date'', JStr (str ''2030-01-31'')), (str ''matches'', JNull)]) = JArr []
   \<and> renderMatches env0 (JObj [(str ''date'', JStr (str ''2030-01-31'')), (str ''matches'', JNull)])
         (dom0\<lparr>list_items := [str ''an earlier line'']\<rparr>)
       = (Inr (), dom0\<lparr>status_text := str ''date: 2030-01-31 '' @ [bullet] @ str '' matches: 0'',
                         list_items := [str ''No matches for this date.'']\<rparr>)
   \<and> matchList (JArr []) = JArr [] \<and> nullish (optProp (JArr []) P_date)
   \<and> renderMatches env0 (JArr []) dom0
       = (Inr (), dom0\<lparr>status_text := str ''date: 2024-05-01 '' @ [bullet] @ str '' matches: 0'',
                         list_items := [str ''No matches for this date.'']\<rparr>)"
proof -
  have today: "toLocalISODate env0 = str ''2024-05-01''"
    by (simp add: toLocalISODate_def env0_def str_def)
  show ?thesis
    using render_empty_list [of "JObj [(str ''date'', JStr (str ''2030-01-31'')), (str ''matches'', JNull)]"
        env0 "dom0\<lparr>list_items := [str ''an earlier line'']\<rparr>"]
      render_empty_list [of "JArr []" env0 dom0]
    by (simp add: matchList_def displayDate_def today str_append [symmetric])
qed

text \<open>
  C8, as stated, fails: on the payload \<^verbatim>\<open>[null]\<close> the loop reads \<^verbatim>\<open>m.date_utc\<close> of
  \<^verbatim>\<open>null\<close>, and \<open>renderMatches\<close> throws a TypeError, the list cleared and nothing in it.
\<close>

theorem render_total_counterexample:
  "fst (renderMatches env0 (JArr [JNull]) dom0) = Inl (TypeError NullishAccess)
   \<and> list_items (snd (renderMatches env0 (JArr [JNull]) dom0)) = []"
  by (simp add: renderMatches_def Let_def statusLine_array iterItems_def matchLine_nullish
        setStatus_def clearList_def)

text \<open>
  C8, amended. On a payload that is \<^verbatim>\<open>null\<close>, \<^verbatim>\<open>undefined\<close>, a boolean, a number (an
  integer or any other), a string,
  or an object whose \<^verbatim>\<open>date\<close> and \<^verbatim>\<open>matches\<close> are both absent or \<^verbatim>\<open>null\<close>,
  \<open>renderMatches\<close> does not throw: the display date is today's local date, the match list
  is the empty array, and the list holds the one entry \<^verbatim>\<open>No matches for this date.\<close>
\<close>

theorem render_degenerate_payload:
  "nullish payload \<or> (\<exists>b. payload = JBool b) \<or> (\<exists>i. payload = JNum i) \<or> (\<exists>s. payload = JStr s)
     \<or> (\<exists>t. payload = JNumber t)
     \<or> (\<exists>kvs. payload = JObj kvs \<and> nullish (optProp payload P_date)
              \<and> nullish (optProp payload P_matches)) \<Longrightarrow>
   displayDate e payload = JStr (toLocalISODate e)
   \<and> matchList payload = JArr []
   \<and> renderMatches e payload d
       = (Inr (), d\<lparr>status_text := str ''date: '' @ toLocalISODate e @ str '' '' @ [bullet]
                                      @ str '' matches: 0'',
                      list_items := [str ''No matches for this date.'']\<rparr>)"
proof -
  assume a: "nullish payload \<or> (\<exists>b. payload = JBool b) \<or> (\<exists>i. payload = JNum i) \<or> (\<exists>s. payload = JStr s)
     \<or> (\<exists>t. payload = JNumber t)
     \<or> (\<exists>kvs. payload = JObj kvs \<and> nullish (optProp payload P_date)
              \<and> nullish (optProp payload P_matches))"
  then have date: "displayDate e payload = JStr (toLocalISODate e)"
    by (auto simp: displayDate_def Let_def nullish_def JNum_def)
  from a have ms: "matchList payload = JArr []"
    by (auto simp: matchList_def Let_def nullish_def JNum_def)
  from date have "toString (displayDate e payload) = Inr (toLocalISODate e)"
    by simp
  with ms date show ?thesis
    by (simp add: renderMatches_empty)
qed

theorem render_degenerate_payload_witness:
  "renderMatches env0 JNull dom0
     = (Inr (), dom0\<lparr>status_text := str ''date: 2024-05-01 '' @ [bullet] @ str '' matches: 0'',
                       list_items := [str ''No matches for this date.'']\<rparr>)
   \<and> renderMatches env0 (JStr (str ''oops'')) dom0
     = (Inr (), dom0\<lparr>status_text := str ''date: 2024-05-01 '' @ [bullet] @ str '' matches: 0'',
                       list_items := [str ''No matches for this date.'']\<rparr>)
   \<and> renderMatches env0 (JObj [(str ''count'', JNum 0)]) dom0
     = (Inr (), dom0\<lparr>status_text := str ''date: 2024-05-01 '' @ [bullet] @ str '' matches: 0'',
                       list_items := [str ''No matches for this date.'']\<rparr>)
   \<and> renderMatches env0 (JNumber (str ''1.5'')) dom0
     = (Inr (), dom0\<lparr>status_text := str ''date: 2024-05-01 '' @ [bullet] @ str '' matches: 0'',
                       list_items := [str ''No matches for this date.'']\<rparr>)"
proof -
  have today: "toLocalISODate env0 = str ''2024-05-01''"
    by (simp add: toLocalISODate_def env0_def str_def)
  show ?thesis
    using render_degenerate_payload [of JNull env0 dom0]
      render_degenerate_payload [of "JStr (str ''oops'')" env0 dom0]
      render_degenerate_payload [of "JObj [(str ''count'', JNum 0)]" env0 dom0]
      render_degenerate_payload [of "JNumber (str ''1.5'')" env0 dom0]
    by (simp add: today str_append [symmetric])
qed

text \<open>
  C1, as stated, fails: on the payload \<^verbatim>\<open>[{}, null]\<close> the match list is the payload, of
  length two, but \<open>renderMatches\<close> appends one line and then throws a TypeError on the
  second element.
\<close>

theorem render_lines_counterexample:
  "matchList (JArr [JObj [], JNull]) = JArr [JObj [], JNull]
   \<and> fst (renderMatches env0 (JArr [JObj [], JNull]) dom0) = Inl (TypeError NullishAccess)
   \<and> length (list_items (snd (renderMatches env0 (JArr [JObj [], JNull]) dom0)))
       \<noteq> length [JObj [], JNull]"
proof -
  have "\<exists>l. matchLine env0 (JObj []) = Inr l"
    by (simp add: matchLine_def timeLocal_def whenArg_def league_def home_def
          away_def score_def Let_def)
  then obtain l where l: "matchLine env0 (JObj []) = Inr l" by blast
  then show ?thesis
    by (simp add: renderMatches_def Let_def statusLine_array iterItems_def matchLine_nullish
        setStatus_def clearList_def appendChild_def li_def)
qed

text \<open>
  C1, amended. For every payload: an array is its own match list, and its display date is
  today's local date; otherwise the match list is the \<^verbatim>\<open>matches\<close> field, or the empty array
  when that is absent or \<^verbatim>\<open>null\<close>. When the match list is a non-empty array, the display date
  converts to a string, and the loop body produces a line for each element, \<open>renderMatches\<close>
  returns with exactly those lines as the list, one for each element, in the order of the
  elements, none dropped, merged or moved. That is so in particular when the payload is
  clean and no element of the list is \<^verbatim>\<open>null\<close> or \<^verbatim>\<open>undefined\<close>.
\<close>

theorem render_lines_in_order:
  "(\<forall>xs. payload = JArr xs
      \<longrightarrow> matchList payload = JArr xs \<and> displayDate e payload = JStr (toLocalISODate e))
   \<and> ((\<forall>xs. payload \<noteq> JArr xs) \<and> \<not> nullish (optProp payload P_matches)
      \<longrightarrow> matchList payload = optProp payload P_matches)
   \<and> ((\<forall>xs. payload \<noteq> JArr xs) \<and> nullish (optProp payload P_matches)
      \<longrightarrow> matchList payload = JArr [])
   \<and> (\<forall>ms ds. matchList payload = JArr ms \<and> ms \<noteq> []
          \<and> toString (displayDate e payload) = Inr ds
          \<and> (\<forall>m \<in> set ms. \<exists>l. matchLine e m = Inr l)
      \<longrightarrow> (\<exists>ls. renderMatches e payload d
                   = (Inr (), d\<lparr>status_text := str ''date: '' @ ds @ str '' '' @ [bullet]
                                                  @ str '' matches: '' @ digits (length ms),
                                  list_items := ls\<rparr>)
              \<and> length ls = length ms
              \<and> list_all2 (\<lambda>m l. matchLine e m = Inr l) ms ls))
   \<and> (\<forall>ms. matchList payload = JArr ms \<and> ms \<noteq> [] \<and> clean payload
          \<and> (\<forall>m \<in> set ms. \<not> nullish m)
      \<longrightarrow> (\<exists>ds ls. renderMatches e payload d
                   = (Inr (), d\<lparr>status_text := str ''date: '' @ ds @ str '' '' @ [bullet]
                                                  @ str '' matches: '' @ digits (length ms),
                                  list_items := ls\<rparr>)
              \<and> length ls = length ms
              \<and> list_all2 (\<lambda>m l. matchLine e m = Inr l) ms ls))"
proof (intro conjI allI impI)
  fix xs assume "payload = JArr xs"
  then show "matchList payload = JArr xs" and "displayDate e payload = JStr (toLocalISODate e)"
    by simp_all
next
  assume "(\<forall>xs. payload \<noteq> JArr xs) \<and> \<not> nullish (optProp payload P_matches)"
  then show "matchList payload = optProp payload P_matches"
    by (simp add: matchList_not_array)
next
  assume "(\<forall>xs. payload \<noteq> JArr xs) \<and> nullish (optProp payload P_matches)"
  then show "matchList payload = JArr []"
    by (simp add: matchList_not_array)
next
  fix ms ds
  assume a: "matchList payload = JArr ms \<and> ms \<noteq> []
          \<and> toString (displayDate e payload) = Inr ds
          \<and> (\<forall>m \<in> set ms. \<exists>l. matchLine e m = Inr l)"
  then obtain ls where ls: "list_all2 (\<lambda>m l. matchLine e m = Inr l) ms ls"
    and run: "renderMatches e payload d
               = (Inr (), d\<lparr>status_text := str ''date: '' @ ds @ str '' '' @ [bullet]
                                            @ str '' matches: '' @ digits (length ms),
                             list_items := ls\<rparr>)"
    using renderMatches_array [of payload ms e ds d] by blast
  from ls have "length ls = length ms"
    by (simp add: list_all2_lengthD)
  with ls run show "\<exists>ls. renderMatches e payload d
                   = (Inr (), d\<lparr>status_text := str ''date: '' @ ds @ str '' '' @ [bullet]
                                                  @ str '' matches: '' @ digits (length ms),
                                  list_items := ls\<rparr>)
              \<and> length ls = length ms
              \<and> list_all2 (\<lambda>m l. matchLine e m = Inr l) ms ls"
    by blast
next
  fix ms
  assume a: "matchList payload = JArr ms \<and> ms \<noteq> [] \<and> clean payload
          \<and> (\<forall>m \<in> set ms. \<not> nullish m)"
  then have "\<forall>m \<in> set ms. clean m"
    using matchList_clean by blast
  with a have ok: "\<forall>m \<in> set ms. \<exists>l. matchLine e m = Inr l"
    using matchLine_clean by blast
  from a obtain ds where ds: "toString (displayDate e payload) = Inr ds"
    using displayDate_clean by blast
  from a ds ok obtain ls where ls: "list_all2 (\<lambda>m l. matchLine e m = Inr l) ms ls"
    and run: "renderMatches e payload d
               = (Inr (), d\<lparr>status_text := str ''date: '' @ ds @ str '' '' @ [bullet]
                                            @ str '' matches: '' @ digits (length ms),
                             list_items := ls\<rparr>)"
    using renderMatches_array [of payload ms e ds d] by blast
  from ls have "length ls = length ms"
    by (simp add: list_all2_lengthD)
  with ls run show "\<exists>ds ls. renderMatches e payload d
                   = (Inr (), d\<lparr>status_text := str ''date: '' @ ds @ str '' '' @ [bullet]
                                                  @ str '' matches: '' @ digits (length ms),
                                  list_items := ls\<rparr>)
              \<and> length ls = length ms
              \<and> list_all2 (\<lambda>m l. matchLine e m = Inr l) ms ls"
    by blast
qed

lemma matchLine_match1:
  "matchLine env0 match1
     = Inr (str ''[PL] Arsenal 1'' @ [en_dash] @ str ''0 Chelsea '' @ [em_dash] @ str '' 5/1/2024, 12:00:00 PM'')"
  by (simp add: match1_def matchLine_def timeLocal_def whenArg_def league_def
        home_def away_def score_def Let_def env0_def str_append [symmetric])

lemma matchLine_empty_object:
  "matchLine env0 (JObj [])
     = Inr (str ''['' @ [em_dash] @ str ''] Home vs Away '' @ [em_dash] @ str '' 5/1/2024, 12:00:00 PM'')"
  by (simp add: matchLine_def timeLocal_def whenArg_def league_def
        home_def away_def score_def Let_def env0_def str_append [symmetric])

theorem render_lines_in_order_witness:
  "matchList (JArr [match1, JObj [], match1]) = JArr [match1, JObj [], match1]
   \<and> displayDate env0 (JArr [match1, JObj [], match1]) = JStr (str ''2024-05-01'')
   \<and> matchList (JObj [(str ''matches'', JArr [match1])]) = JArr [match1]
   \<and> matchList (JObj [(str ''date'', JStr (str ''2024-05-01''))]) = JArr []
   \<and> clean (JArr [match1, JObj [], match1])
   \<and> \<not> nullish match1 \<and> \<not> nullish (JObj [])
   \<and> renderMatches env0 (JArr [match1, JObj [], match1]) dom0
       = (Inr (), dom0\<lparr>status_text := str ''date: 2024-05-01 '' @ [bullet] @ str '' matches: 3'',
           list_items :=
             [str ''[PL] Arsenal 1'' @ [en_dash] @ str ''0 Chelsea '' @ [em_dash] @ str '' 5/1/2024, 12:00:00 PM'',
              str ''['' @ [em_dash] @ str ''] Home vs Away '' @ [em_dash] @ str '' 5/1/2024, 12:00:00 PM'',
              str ''[PL] Arsenal 1'' @ [en_dash] @ str ''0 Chelsea '' @ [em_dash] @ str '' 5/1/2024, 12:00:00 PM'']\<rparr>)"
proof -
  have today: "toLocalISODate env0 = str ''2024-05-01''"
    by (simp add: toLocalISODate_def env0_def str_def)
  have three: "digits 3 = str ''3''"
    by (simp add: digits.simps str_def)
  have three': "digits (Suc (Suc (Suc 0))) = str ''3''"
    using three by (simp add: numeral_3_eq_3)
  have c: "clean (JArr [match1, JObj [], match1])"
    by (simp add: match1_def)
  have n: "\<not> nullish match1" "\<not> nullish (JObj [])"
    by (simp_all add: match1_def)
  show ?thesis
    using c n render_lines_in_order [of "JArr [match1, JObj [], match1]" env0 dom0]
      render_lines_in_order [of "JObj [(str ''matches'', JArr [match1])]" env0 dom0]
      render_lines_in_order [of "JObj [(str ''date'', JStr (str ''2024-05-01''))]" env0 dom0]
    by (auto simp: today three' matchLine_match1 matchLine_empty_object list_all2_Cons1
          str_append [symmetric])
qed

section \<open>The actions and the buttons\<close>

lemma setStatus_fields [simp]:
  "status_text (setStatus msg d) = msg"
  "list_items (setStatus msg d) = list_items d"
  "btnToday_disabled (setStatus msg d) = btnToday_disabled d"
  "btnLoad_disabled (setStatus msg d) = btnLoad_disabled d"
  "date_value (setStatus msg d) = date_value d"
  by (simp_all add: setStatus_def)

lemma fetchToday_begin_disables:
  "btnToday_disabled (fst (fetchToday_begin api d))" "btnLoad_disabled (fst (fetchToday_begin api d))"
  by (simp_all add: fetchToday_begin_def)

lemma fetchDate_begin_cases:
  "(\<exists>u. snd (fetchDate_begin e api dt d) = Some u
        \<and> btnToday_disabled (fst (fetchDate_begin e api dt d))
        \<and> btnLoad_disabled (fst (fetchDate_begin e api dt d)))
   \<or> (snd (fetchDate_begin e api dt d) = None
        \<and> \<not> btnToday_disabled (fst (fetchDate_begin e api dt d))
        \<and> \<not> btnLoad_disabled (fst (fetchDate_begin e api dt d)))"
  by (cases "encodeURIComponent dt") (simp_all add: fetchDate_begin_def Let_def)

lemma reachable_quiet_or_busy: "reachable api s \<Longrightarrow> quiet s \<or> busy s"
proof (induction rule: reachable.induct)
  case (start e d)
  then show ?case
    by (simp add: startup_def fetchToday_begin_def busy_def)
next
  case (today s)
  then have "pending s = []" by (auto simp: quiet_def busy_def)
  then show ?case
    by (simp add: clickToday_def fetchToday_begin_def busy_def)
next
  case (load s e)
  then have p: "pending s = []" by (auto simp: quiet_def busy_def)
  show ?case
    using fetchDate_begin_cases [of e api "loadArg e (elements s)" "elements s"] p
    by (auto simp: clickLoad_def quiet_def busy_def split: prod.splits option.splits)
next
  case (edit s v)
  then show ?case by (auto simp: quiet_def busy_def)
next
  case (settled s u e fetched)
  then have "pending s = [u]"
    by (cases "pending s") (auto simp: quiet_def busy_def)
  then show ?case by (simp add: settle_def quiet_def)
qed

text \<open>
  C7. At the \<^verbatim>\<open>await\<close> of \<open>fetchToday\<close>, and of \<open>fetchDate\<close> when it sends a request, both
  buttons are disabled. In every state the page can reach, at most one request is out, and
  while one is out both buttons are disabled. When an action resumes, however the request
  settled and whatever \<open>renderMatches\<close> did, both buttons are enabled again; so they are
  after an action that has run to its end, and after a \<open>fetchDate\<close> that threw before
  sending anything.
\<close>

theorem controls_disabled_while_pending:
  "btnToday_disabled (fst (fetchToday_begin api d)) \<and> btnLoad_disabled (fst (fetchToday_begin api d))
   \<and> (\<forall>u. snd (fetchDate_begin e api dt d) = Some u
        \<longrightarrow> btnToday_disabled (fst (fetchDate_begin e api dt d))
          \<and> btnLoad_disabled (fst (fetchDate_begin e api dt d)))
   \<and> (snd (fetchDate_begin e api dt d) = None
        \<longrightarrow> \<not> btnToday_disabled (fst (fetchDate_begin e api dt d))
          \<and> \<not> btnLoad_disabled (fst (fetchDate_begin e api dt d)))
   \<and> (reachable api s \<and> pending s \<noteq> []
        \<longrightarrow> btnToday_disabled (elements s) \<and> btnLoad_disabled (elements s))
   \<and> (reachable api s \<longrightarrow> length (pending s) \<le> 1)
   \<and> \<not> btnToday_disabled (fetchToday_resume e u fetched d)
   \<and> \<not> btnLoad_disabled (fetchToday_resume e u fetched d)
   \<and> \<not> btnToday_disabled (fetchDate_resume e u fetched d)
   \<and> \<not> btnLoad_disabled (fetchDate_resume e u fetched d)
   \<and> \<not> btnToday_disabled (fetchToday e api net d) \<and> \<not> btnLoad_disabled (fetchToday e api net d)
   \<and> \<not> btnToday_disabled (fetchDate e api net dt d) \<and> \<not> btnLoad_disabled (fetchDate e api net dt d)"
proof -
  have inv: "reachable api s \<Longrightarrow> quiet s \<or> busy s"
    by (rule reachable_quiet_or_busy)
  have a: "reachable api s \<and> pending s \<noteq> []
        \<longrightarrow> btnToday_disabled (elements s) \<and> btnLoad_disabled (elements s)"
    using inv by (auto simp: quiet_def busy_def)
  have b: "reachable api s \<longrightarrow> length (pending s) \<le> 1"
    using inv by (auto simp: quiet_def busy_def)
  have c: "\<not> btnToday_disabled (fetchDate e api net dt d) \<and> \<not> btnLoad_disabled (fetchDate e api net dt d)"
    using fetchDate_begin_cases [of e api dt d]
    by (auto simp: fetchDate_def fetchDate_resume_def split: prod.splits option.splits)
  have d: "\<not> btnToday_disabled (fetchToday e api net d) \<and> \<not> btnLoad_disabled (fetchToday e api net d)"
    by (simp add: fetchToday_def fetchToday_resume_def split: prod.splits)
  show ?thesis
    using a b c d fetchDate_begin_cases [of e api dt d]
    by (auto simp: fetchToday_begin_disables fetchToday_resume_def fetchDate_resume_def)
qed

theorem controls_disabled_while_pending_witness:
  "reachable api0 (startup env0 api0 dom0)
   \<and> pending (startup env0 api0 dom0) \<noteq> []
   \<and> btnToday_disabled (elements (startup env0 api0 dom0))
   \<and> btnLoad_disabled (elements (startup env0 api0 dom0))
   \<and> snd (fetchDate_begin env0 api0 (str ''2024-05-01'') dom0)
       = Some (str ''http://127.0.0.1:8000/api/matches/date?d=2024-05-01'')
   \<and> btnToday_disabled (fst (fetchDate_begin env0 api0 (str ''2024-05-01'') dom0))
   \<and> btnLoad_disabled (fst (fetchDate_begin env0 api0 (str ''2024-05-01'') dom0))
   \<and> snd (fetchDate_begin env0 api0 [0xD800] dom0) = None
   \<and> \<not> btnToday_disabled (fst (fetchDate_begin env0 api0 [0xD800] dom0))
   \<and> \<not> btnLoad_disabled (fst (fetchDate_begin env0 api0 [0xD800] dom0))"
proof -
  have r: "reachable api0 (startup env0 api0 dom0)"
    by (rule reachable.start)
  have p: "pending (startup env0 api0 dom0) \<noteq> []"
    by (simp add: startup_def fetchToday_begin_def)
  have q: "encodeURIComponent (str ''2024-05-01'') = Inr (str ''2024-05-01'')"
    by (simp add: str_def unreserved_def)
  have u: "snd (fetchDate_begin env0 api0 (str ''2024-05-01'') dom0)
       = Some (str ''http://127.0.0.1:8000/api/matches/date?d=2024-05-01'')"
    by (simp add: fetchDate_begin_def Let_def q api0_def str_append [symmetric])
  have n: "snd (fetchDate_begin env0 api0 [0xD800] dom0) = None"
    by (simp add: fetchDate_begin_def Let_def unreserved_def str_def)
  show ?thesis
    using r p u n
      controls_disabled_while_pending [where api = api0 and s = "startup env0 api0 dom0"
        and e = env0 and dt = "str ''2024-05-01''" and d = dom0]
      controls_disabled_while_pending [where api = api0 and e = env0 and dt = "[0xD800]" and d = dom0]
    by simp
qed

lemma encodeURIComponent_unreserved:
  "\<forall>c \<in> set s. unreserved c \<Longrightarrow> encodeURIComponent s = Inr s"
  by (induction s) simp_all

lemma isoDate_unreserved: "isoDate s \<Longrightarrow> \<forall>c \<in> set s. unreserved c"
proof -
  assume "isoDate s"
  then have "list_all2 (\<lambda>hyphen c. unreserved c)
       [False, False, False, False, True, False, False, True, False, False] s"
    unfolding isoDate_def
    by (rule list_all2_mono) (auto simp: isDigit_def unreserved_def str_def split: if_splits)
  then show ?thesis
    by (auto simp: list_all2_conv_all_nth in_set_conv_nth)
qed

section \<open>Dates\<close>

lemma pad_2: "pad 2 n = [of_nat (48 + n div 10 mod 10), of_nat (48 + n mod 10)]"
proof -
  have "pad (Suc (Suc 0)) n = [of_nat (48 + n div 10 mod 10), of_nat (48 + n mod 10)]"
    by simp
  moreover have "(2 :: nat) = Suc (Suc 0)"
    by simp
  ultimately show ?thesis by (simp only:)
qed

lemma pad_3:
  "pad 3 n = [of_nat (48 + n div 100 mod 10), of_nat (48 + n div 10 mod 10), of_nat (48 + n mod 10)]"
proof -
  have "pad (Suc (Suc (Suc 0))) n
          = [of_nat (48 + n div 100 mod 10), of_nat (48 + n div 10 mod 10), of_nat (48 + n mod 10)]"
    by (simp add: div_mult2_eq [symmetric])
  moreover have "(3 :: nat) = Suc (Suc (Suc 0))"
    by simp
  ultimately show ?thesis by (simp only:)
qed

lemma pad_4:
  "pad 4 n = [of_nat (48 + n div 1000 mod 10), of_nat (48 + n div 100 mod 10),
              of_nat (48 + n div 10 mod 10), of_nat (48 + n mod 10)]"
proof -
  have "pad (Suc (Suc (Suc (Suc 0)))) n
          = [of_nat (48 + n div 1000 mod 10), of_nat (48 + n div 100 mod 10),
             of_nat (48 + n div 10 mod 10), of_nat (48 + n mod 10)]"
    by (simp add: div_mult2_eq [symmetric])
  moreover have "(4 :: nat) = Suc (Suc (Suc (Suc 0)))"
    by simp
  ultimately show ?thesis by (simp only:)
qed

lemma pad_6:
  "pad 6 n = [of_nat (48 + n div 100000 mod 10), of_nat (48 + n div 10000 mod 10),
              of_nat (48 + n div 1000 mod 10), of_nat (48 + n div 100 mod 10),
              of_nat (48 + n div 10 mod 10), of_nat (48 + n mod 10)]"
proof -
  have "pad (Suc (Suc (Suc (Suc (Suc (Suc 0)))))) n
          = [of_nat (48 + n div 100000 mod 10), of_nat (48 + n div 10000 mod 10),
             of_nat (48 + n div 1000 mod 10), of_nat (48 + n div 100 mod 10),
             of_nat (48 + n div 10 mod 10), of_nat (48 + n mod 10)]"
    by (simp add: div_mult2_eq [symmetric])
  moreover have "(6 :: nat) = Suc (Suc (Suc (Suc (Suc (Suc 0)))))"
    by simp
  ultimately show ?thesis by (simp only:)
qed


lemmas iso_unfold = isoString_def isoYear_def civil_def msPerDay_def Let_def

lemmas pad_eval = pad_2 pad_3 pad_4 pad_6 str_def

lemma isoString_noon: "isoString 1714564800000 = str ''2024-05-01T12:00:00.000Z''"
  by (simp only: iso_unfold) (simp add: pad_eval)

lemma isoString_year_10000: "isoString 253402300800000 = str ''+010000-01-01T00:00:00.000Z''"
  by (simp only: iso_unfold) (simp add: pad_eval)

lemma isoString_before_epoch: "isoString (- 1) = str ''1969-12-31T23:59:59.999Z''"
  by (simp only: iso_unfold) (simp add: pad_eval)

lemma isoString_year_minus_1: "isoString (- 62167219200001) = str ''-000001-12-31T23:59:59.999Z''"
  by (simp only: iso_unfold) (simp add: pad_eval)

lemma isoString_leap_day: "isoString 1709164800000 = str ''2024-02-29T00:00:00.000Z''"
  by (simp only: iso_unfold) (simp add: pad_eval)

lemma digit_char:
  assumes "k < 10"
  shows "isDigit (of_nat (48 + k))"
proof -
  have "unat (of_nat (48 + k) :: 16 word) = (48 + k) mod 2 ^ LENGTH(16)"
    by (rule unat_of_nat)
  then have "unat (of_nat (48 + k) :: 16 word) = 48 + k"
    using assms by simp
  then show ?thesis
    using assms unfolding isDigit_def by (simp only: word_le_nat_alt) simp
qed

lemma digit_char_mod [simp]: "isDigit (of_nat (48 + k mod 10))"
  by (rule digit_char) simp

lemma digit_char_mod_sum [simp]: "isDigit (48 + of_nat (k mod 10))"
  using digit_char_mod [of k] by simp

lemma length_pad [simp]: "length (pad k n) = k"
  by (induction k arbitrary: n) simp_all

lemma take_10_isoString:
  assumes "civil (t div msPerDay) = (y, m, d)" "0 \<le> y" "y \<le> 9999"
  shows "take 10 (isoString t) = pad 4 (nat y) @ str ''-'' @ pad 2 (nat m) @ str ''-'' @ pad 2 (nat d)"
proof -
  let ?date = "pad 4 (nat y) @ str ''-'' @ pad 2 (nat m) @ str ''-'' @ pad 2 (nat d)"
  obtain rest where "isoString t = ?date @ rest"
    using assms by (simp add: isoString_def isoYear_def Let_def)
  moreover have "length ?date = 10"
    by (simp add: str_def)
  ultimately show ?thesis by simp
qed

lemma isoDate_date: "isoDate (pad 4 y @ str ''-'' @ pad 2 m @ str ''-'' @ pad 2 d)"
  by (simp add: isoDate_def pad_2 pad_4 str_def)

lemma toLocalISODate_localDate:
  assumes "toISOString e (localTime e) = isoString (localTime e)"
    and "0 \<le> localYear e" "localYear e \<le> 9999"
  shows "toLocalISODate e = localDate e"
proof -
  obtain y m d where c: "civil (localTime e div msPerDay) = (y, m, d)"
    by (cases "civil (localTime e div msPerDay)") auto
  with assms(2,3) have "0 \<le> y" "y \<le> 9999"
    by (simp_all add: localYear_def)
  with c have "take 10 (isoString (localTime e)) = localDate e"
    by (simp add: take_10_isoString localDate_def)
  with assms(1) show ?thesis
    by (simp add: toLocalISODate_def localTime_def Let_def)
qed

lemma isoDate_localDate: "isoDate (localDate e)"
  by (cases "civil (localTime e div msPerDay)") (simp add: localDate_def isoDate_date)

lemma isoString_ahead: "isoString 1714629600000 = str ''2024-05-02T06:00:00.000Z''"
  by (simp only: iso_unfold) (simp add: pad_eval)

lemma civil_ahead: "civil (1714629600000 div msPerDay) = (2024, 5, 2)"
  by (simp only: civil_def msPerDay_def Let_def) simp

lemma civil_year_10000: "civil (253402300800000 div msPerDay) = (10000, 1, 1)"
  by (simp only: civil_def msPerDay_def Let_def) simp

text \<open>
  C10, as stated, fails: at the first instant of the year 10000 the ISO string begins with
  \<^verbatim>\<open>+010000-01-01\<close>, its first ten characters are \<^verbatim>\<open>+010000-01\<close>, and with the date input
  empty the click sends \<^verbatim>\<open>d=%2B010000-01\<close>, which is no \<^verbatim>\<open>YYYY-MM-DD\<close> date.
\<close>

theorem load_click_year_10000_counterexample:
  "date_value dom0 = []
   \<and> loadArg env10000 dom0 = str ''+010000-01''
   \<and> \<not> isoDate (loadArg env10000 dom0)
   \<and> snd (fetchDate_begin env10000 api0 (loadArg env10000 dom0) dom0)
       = Some (str ''http://127.0.0.1:8000/api/matches/date?d=%2B010000-01'')"
proof -
  have today: "toLocalISODate env10000 = str ''+010000-01''"
    by (simp add: toLocalISODate_def env10000_def isoString_year_10000) (simp add: str_def)
  have arg: "loadArg env10000 dom0 = str ''+010000-01''"
    by (simp add: loadArg_def dom0_def today)
  have enc: "encodeURIComponent (str ''+010000-01'') = Inr (str ''%2B010000-01'')"
    by (simp add: str_def unreserved_def escaped_def utf8_def percent_def hexDigit_def)
  have "\<not> isoDate (str ''+010000-01'')"
    by (simp add: isoDate_def isDigit_def str_def)
  with arg enc show ?thesis
    by (simp add: fetchDate_begin_def Let_def api0_def dom0_def str_append [symmetric])
qed

text \<open>
  C10, amended. When the date input is the empty string, the click handler of \<^verbatim>\<open>btnLoad\<close>
  calls \<open>fetchDate\<close> with \<^verbatim>\<open>toLocalISODate()\<close>. Where the browser's \<^verbatim>\<open>toISOString\<close> gives
  the local instant the string the standard prescribes, and the year of the local date is
  from 0 to 9999, that argument is the local date as \<^verbatim>\<open>YYYY-MM-DD\<close>: it is not empty,
  \<^verbatim>\<open>encodeURIComponent\<close> leaves it as it is, and the request goes to
  \<^verbatim>\<open>/api/matches/date?d=\<close> followed by the date.
\<close>

theorem load_click_with_empty_date:
  "date_value d = [] \<Longrightarrow>
     loadArg e d = toLocalISODate e
   \<and> (toISOString e (localTime e) = isoString (localTime e)
        \<and> 0 \<le> localYear e \<and> localYear e \<le> 9999
        \<longrightarrow> loadArg e d = localDate e
          \<and> isoDate (loadArg e d)
          \<and> loadArg e d \<noteq> []
          \<and> snd (fetchDate_begin e api (loadArg e d) d)
              = Some (api @ str ''/api/matches/date?d='' @ localDate e)
          \<and> pending (clickLoad e api \<lparr>elements = d, pending = []\<rparr>)
              = [api @ str ''/api/matches/date?d='' @ localDate e])"
proof -
  assume empty: "date_value d = []"
  then have arg: "loadArg e d = toLocalISODate e"
    by (simp add: loadArg_def)
  have "toISOString e (localTime e) = isoString (localTime e)
        \<and> 0 \<le> localYear e \<and> localYear e \<le> 9999
        \<longrightarrow> loadArg e d = localDate e
          \<and> isoDate (loadArg e d)
          \<and> loadArg e d \<noteq> []
          \<and> snd (fetchDate_begin e api (loadArg e d) d)
              = Some (api @ str ''/api/matches/date?d='' @ localDate e)
          \<and> pending (clickLoad e api \<lparr>elements = d, pending = []\<rparr>)
              = [api @ str ''/api/matches/date?d='' @ localDate e]"
  proof
    assume c: "toISOString e (localTime e) = isoString (localTime e)
        \<and> 0 \<le> localYear e \<and> localYear e \<le> 9999"
    then have date: "toLocalISODate e = localDate e"
      by (simp add: toLocalISODate_localDate)
    have iso: "isoDate (localDate e)"
      by (rule isoDate_localDate)
    then have enc: "encodeURIComponent (localDate e) = Inr (localDate e)"
      by (simp add: encodeURIComponent_unreserved isoDate_unreserved)
    from iso have ne: "localDate e \<noteq> []"
      by (auto simp: isoDate_def)
    show "loadArg e d = localDate e
          \<and> isoDate (loadArg e d)
          \<and> loadArg e d \<noteq> []
          \<and> snd (fetchDate_begin e api (loadArg e d) d)
              = Some (api @ str ''/api/matches/date?d='' @ localDate e)
          \<and> pending (clickLoad e api \<lparr>elements = d, pending = []\<rparr>)
              = [api @ str ''/api/matches/date?d='' @ localDate e]"
      using arg date iso enc ne by (simp add: fetchDate_begin_def clickLoad_def Let_def)
  qed
  with arg show ?thesis by blast
qed

theorem load_click_with_empty_date_witness:
  "date_value dom0 = []
   \<and> toISOString envAhead (localTime envAhead) = isoString (localTime envAhead)
   \<and> 0 \<le> localYear envAhead \<and> localYear envAhead \<le> 9999
   \<and> loadArg envAhead dom0 = str ''2024-05-02''
   \<and> snd (fetchDate_begin envAhead api0 (loadArg envAhead dom0) dom0)
       = Some (str ''http://127.0.0.1:8000/api/matches/date?d=2024-05-02'')"
proof -
  have empty: "date_value dom0 = []"
    by (simp add: dom0_def)
  have t: "localTime envAhead = 1714629600000"
    by (simp add: localTime_def envAhead_def)
  have contract: "toISOString envAhead (localTime envAhead) = isoString (localTime envAhead)"
    by (simp add: envAhead_def)
  have year: "localYear envAhead = 2024"
    by (simp add: localYear_def t civil_ahead)
  have date: "localDate envAhead = str ''2024-05-02''"
    by (simp add: localDate_def t civil_ahead pad_2 pad_4 str_def)
  from load_click_with_empty_date [OF empty, of envAhead api0] contract year
  have arg: "loadArg envAhead dom0 = localDate envAhead"
    and req: "snd (fetchDate_begin envAhead api0 (loadArg envAhead dom0) dom0)
                = Some (api0 @ str ''/api/matches/date?d='' @ localDate envAhead)"
    by auto
  have "api0 @ str ''/api/matches/date?d='' @ localDate envAhead
          = str ''http://127.0.0.1:8000/api/matches/date?d=2024-05-02''"
    by (simp add: date api0_def str_append [symmetric])
  with arg req empty contract year date show ?thesis
    by simp
qed

end
